theory Spec2Isabelle
  imports Main
begin

section \<open>The session server of web-whatsapp (backend/server.js)\<close>

text \<open>
  The backend keeps one in-memory table \<open>sessions\<close> from a session id (the tenant id) to
  an entry \<open>{client, ready, qrDataUrl}\<close>. REST handlers and the event handlers of the
  WhatsApp client read and update that table, push events to the socket room named after
  the session id, and delete credential directories on disk.

  Modelling decisions:
  \<^item> Every handler is one atomic step on an explicit state. What an awaited call of a
    collaborator gives back (the client's \<open>getState\<close>, \<open>sendMessage\<close>, \<open>logout\<close>,
    \<open>QRCode.toDataURL\<close>, the reads and renames of the uploaded file) is an argument of the
    step, of type \<open>outcome\<close>: the promise resolves with a value or rejects.
  \<^item> Everything a handler does to the outside (constructing a client, calling one of its
    methods, emitting to a room or a socket, removing a directory) is appended to the
    \<open>trace\<close> of the state, in program order.
  \<^item> \<open>sessions\<close> is a plain JavaScript object. Its own properties are the finite map
    \<open>sessions\<close> of the state; reading \<open>sessions[id]\<close> also finds what every object
    inherits from \<open>Object.prototype\<close> (\<open>lookup\<close> below).
  \<^item> A \<open>new Client\<close> is a fresh handle, a natural number taken from \<open>nextHandle\<close>.
  \<^item> The file system is the set \<open>existing\<close> of path strings for which \<open>fs.existsSync\<close>
    answers true, and the set \<open>locked\<close> of paths whose removal the operating system
    refuses (\<open>fs.rmSync\<close> throws there). A removal is recursive: it takes away the path
    and every path string that names something inside it, the set \<open>below\<close> of the path.
  \<^item> Node's \<open>path.join\<close> and the layout of the file system are not part of the
    sources. They are the fields \<open>pathJoin\<close> and \<open>below\<close> of the state, which no handler
    changes, so that every result holds for whatever they are.
  \<^item> Log entries keep level, message and session id; the time stamp and the free-form
    \<open>meta\<close> object of an entry are left out.
  \<^item> The two admin routes that only read (\<open>/admin/ping\<close>, \<open>/admin/logs\<close>) and the
    set-up of CORS and of the upload folders are not part of the model.
\<close>

subsection \<open>Data\<close>

datatype 'a outcome = Resolved 'a | Rejected

datatype status =
    NOT_STARTED | STARTING | WAITING_QR | AUTHENTICATED | LOGGED_IN | AUTH_FAILURE
  | DISCONNECTED | LOGGED_OUT | NOT_CONNECTED | SENT | CACHE_DELETED | FORCE_RESET_DONE
  | Media_sent_successfully

text \<open>The entry of the table: \<open>{ client, ready: boolean, qrDataUrl: string | null }\<close>.\<close>

record session =
  client :: nat
  ready :: bool
  qrDataUrl :: "string option"

text \<open>Payloads of the events pushed over Socket.IO.\<close>

datatype event =
    EvStatus status "string option"
  | EvQr string
  | EvSent string string "string option"
  | EvError string

text \<open>What \<open>client.sendMessage\<close> is given as content.\<close>

datatype content =
    Text string
  | Media string string string "string option"

datatype effect =
    NewClient nat string
  | Initialize nat
  | GetState nat
  | SendMessage nat string content
  | Logout nat
  | DeleteSession string
  | Emit string event
  | SocketJoin nat string
  | SocketEmit nat event
  | RmSync string
  | MkdirSync string
  | UnlinkSync string
  | ReadFileSync string
  | RenameSync string string

datatype level = INFO | WARN | ERROR

record log_entry =
  sessionId :: "string option"
  lvl :: level
  msg :: string

record state =
  sessions :: "string \<rightharpoonup> session"
  nextHandle :: nat
  trace :: "effect list"
  logs :: "log_entry list"
  cwd :: string
  dirname :: string
  existing :: "string set"
  locked :: "string set"
  pathJoin :: "string \<Rightarrow> string \<Rightarrow> string"
  below :: "string \<Rightarrow> string set"

text \<open>The bodies of the JSON responses, and the response with its HTTP status code.
  \<open>BUncaught\<close> is the error page Express writes, with status 500, when a synchronous
  handler throws. \<open>Unanswered\<close> stands for an async handler whose promise rejected
  before it wrote a response.\<close>

datatype body =
    BStatus status
  | BStatusQr status "string option"
  | BDeleted status "string list"
  | BError string
  | BUncaught

datatype response = Resp nat body | Unanswered

datatype reason = NO_SESSION | NOT_CONNECTED_REASON

record conn =
  ok :: bool
  reason :: "reason option"

text \<open>The file multer hands to the media handler.\<close>

record upload =
  path :: string
  filename :: string
  originalname :: string

text \<open>
  What the collaborators of the media handler give back: \<open>fs.readFileSync\<close> of the
  upload (its base64 text, or it throws), \<open>mime.lookup\<close> of the original name (a type, or
  \<open>false\<close>), the awaited \<open>client.sendMessage\<close>, and \<open>fs.renameSync\<close> into the folder of
  sent files.
\<close>

record media_io =
  readFile :: "string outcome"
  mimeLookup :: "string option"
  sendResult :: "unit outcome"
  renameResult :: "unit outcome"

subsection \<open>Helpers\<close>

text \<open>JavaScript truthiness of a \<open>string | null\<close> and of a string.\<close>

definition truthy :: "string option \<Rightarrow> bool" where
  "truthy v = (case v of None \<Rightarrow> False | Some x \<Rightarrow> x \<noteq> [])"

definition falsy :: "string \<Rightarrow> bool" where
  "falsy x = (x = [])"

definition MAX_LOGS :: nat where
  "MAX_LOGS = 1000"

text \<open>\<open>log(level, msg, sessionId)\<close>: push, then drop the oldest entry above the bound.\<close>

definition log :: "level \<Rightarrow> string \<Rightarrow> string option \<Rightarrow> state \<Rightarrow> state" where
  "log l m sid s =
     (let pushed = logs s @ [\<lparr>sessionId = sid, lvl = l, msg = m\<rparr>]
      in s\<lparr>logs := (if length pushed > MAX_LOGS then tl pushed else pushed)\<rparr>)"

definition effect :: "effect \<Rightarrow> state \<Rightarrow> state" where
  "effect e s = s\<lparr>trace := trace s @ [e]\<rparr>"

text \<open>\<open>emitTo(sessionId, event, payload)\<close>: \<open>io.to(sessionId).emit(event, payload)\<close>.\<close>

definition emitTo :: "string \<Rightarrow> event \<Rightarrow> state \<Rightarrow> state" where
  "emitTo sid ev s = effect (Emit sid ev) s"

definition getAuthDirsForSession :: "string \<Rightarrow> state \<Rightarrow> string list" where
  "getAuthDirsForSession sid s =
     (let base = pathJoin s (cwd s) ''.wwebjs_auth''
      in [pathJoin s base (''session-'' @ sid), pathJoin s base sid])"

subsection \<open>Reading the table\<close>

text \<open>
  The names every object inherits from \<open>Object.prototype\<close>. Under each of them
  \<open>sessions[id]\<close> is a function (for \<open>__proto__\<close> the prototype object itself): a truthy
  value that has no \<open>client\<close>, \<open>ready\<close> or \<open>qrDataUrl\<close>.
\<close>

definition Object_prototype :: "string list" where
  "Object_prototype =
     [''constructor'', ''__defineGetter__'', ''__defineSetter__'', ''hasOwnProperty'',
      ''__lookupGetter__'', ''__lookupSetter__'', ''isPrototypeOf'', ''propertyIsEnumerable'',
      ''toString'', ''valueOf'', ''__proto__'', ''toLocaleString'']"

datatype found = Missing | Own session | Inherited

text \<open>\<open>sessions[sessionId]\<close>: \<open>undefined\<close>, an entry, or an inherited value.\<close>

definition lookup :: "state \<Rightarrow> string \<Rightarrow> found" where
  "lookup s sid =
     (case sessions s sid of
        Some e \<Rightarrow> Own e
      | None \<Rightarrow> if sid \<in> set Object_prototype then Inherited else Missing)"

text \<open>\<open>delete sessions[sessionId]\<close>: only an own property goes away. The statement is
  recorded in the trace, so that its place among the other effects can be read there.\<close>

definition deleteSession :: "string \<Rightarrow> state \<Rightarrow> state" where
  "deleteSession sid s = effect (DeleteSession sid) (s\<lparr>sessions := (sessions s)(sid := None)\<rparr>)"

subsection \<open>ensureConnected\<close>

text \<open>
  \<open>probe\<close> is what \<open>await sess.client.getState()\<close> gives: the state string, or a
  rejection. The client of an entry is always an object, so \<open>!sess.client\<close> is false
  whenever the entry exists; an inherited value has no \<open>client\<close>, so it is reported like
  a missing entry.
\<close>

definition ensureConnected :: "string \<Rightarrow> string outcome \<Rightarrow> state \<Rightarrow> conn \<times> state" where
  "ensureConnected sid probe s =
     (case sessions s sid of
        None \<Rightarrow> (\<lparr>ok = False, reason = Some NO_SESSION\<rparr>, s)
      | Some sess \<Rightarrow>
          (let s1 = effect (GetState (client sess)) s in
           case probe of
             Resolved st \<Rightarrow>
               (let connected = (st = ''CONNECTED'')
                in (\<lparr>ok = connected,
                      reason = (if connected then None else Some NOT_CONNECTED_REASON)\<rparr>,
                    s1\<lparr>sessions := (sessions s1)(sid \<mapsto> sess\<lparr>ready := connected\<rparr>)\<rparr>))
           | Rejected \<Rightarrow>
               (\<lparr>ok = False, reason = Some NOT_CONNECTED_REASON\<rparr>,
                s1\<lparr>sessions := (sessions s1)(sid \<mapsto> sess\<lparr>ready := False\<rparr>)\<rparr>)))"

subsection \<open>createSession and the client's events\<close>

text \<open>
  \<open>new LocalAuth({ clientId })\<close> of whatsapp-web.js throws unless the id is empty or
  matches \<open>/^[-_\w]+$/i\<close>: letters, digits, underscore and hyphen only. That happens
  while the argument of \<open>new Client\<close> is built, before anything is stored; \<open>None\<close> is
  that exception.
\<close>

definition idChars :: string where
  "idChars = ''-_0123456789abcdefghijklmnopqrstuvwxyzABCDEFGHIJKLMNOPQRSTUVWXYZ''"

definition LocalAuth_accepts :: "string \<Rightarrow> bool" where
  "LocalAuth_accepts sid \<longleftrightarrow> sid = [] \<or> list_all (\<lambda>c. c \<in> set idChars) sid"

definition createSession :: "string \<Rightarrow> state \<Rightarrow> state option" where
  "createSession sid s =
     (if \<not> LocalAuth_accepts sid then None
      else
        (let h = nextHandle s;
             s1 = effect (NewClient h sid) (s\<lparr>nextHandle := Suc h\<rparr>);
             s2 = s1\<lparr>sessions := (sessions s1)(sid \<mapsto> \<lparr>client = h, ready = False, qrDataUrl = None\<rparr>)\<rparr>;
             s3 = effect (Initialize h) s2
         in Some (log INFO ''Session initializing'' (Some sid) s3)))"

text \<open>
  The handlers close over the session id, not over the client: an event finds whatever
  entry the table holds under that id when it fires. Only a client raises events, and a
  client is constructed only for an id under which \<open>sessions[id]\<close> was \<open>undefined\<close>, so
  the id of an event never names an inherited property. Writing a field of a missing entry
  is a \<open>TypeError\<close>. In the \<open>qr\<close> handler that happens inside \<open>try\<close>, so it ends in the
  \<open>catch\<close> branch like a failed \<open>QRCode.toDataURL\<close>; in \<open>ready\<close> and \<open>auth_failure\<close>
  it is the first statement and the handler throws (\<open>None\<close>) with nothing changed.
\<close>

definition on_qr :: "string \<Rightarrow> string outcome \<Rightarrow> state \<Rightarrow> state" where
  "on_qr sid dataUrl s =
     (case (dataUrl, sessions s sid) of
        (Resolved url, Some sess) \<Rightarrow>
          (let s1 = s\<lparr>sessions := (sessions s)(sid \<mapsto> sess\<lparr>qrDataUrl := Some url\<rparr>)\<rparr>;
               s2 = emitTo sid (EvQr url) s1;
               s3 = emitTo sid (EvStatus WAITING_QR None) s2
           in log INFO ''QR generated'' (Some sid) s3)
      | _ \<Rightarrow>
          (let s1 = emitTo sid (EvError ''QR generation failed'') s
           in log ERROR ''QR generation failed'' (Some sid) s1))"

definition on_authenticated :: "string \<Rightarrow> state \<Rightarrow> state" where
  "on_authenticated sid s =
     emitTo sid (EvStatus AUTHENTICATED None) (log INFO ''Authenticated'' (Some sid) s)"

definition on_ready :: "string \<Rightarrow> state \<Rightarrow> state option" where
  "on_ready sid s =
     (case sessions s sid of
        None \<Rightarrow> None
      | Some sess \<Rightarrow>
          (let s1 = s\<lparr>sessions := (sessions s)(sid \<mapsto> sess\<lparr>ready := True, qrDataUrl := None\<rparr>)\<rparr>;
               s2 = log INFO ''Client ready'' (Some sid) s1
           in Some (emitTo sid (EvStatus LOGGED_IN None) s2)))"

definition on_auth_failure :: "string \<Rightarrow> string \<Rightarrow> state \<Rightarrow> state option" where
  "on_auth_failure sid m s =
     (case sessions s sid of
        None \<Rightarrow> None
      | Some sess \<Rightarrow>
          (let s1 = s\<lparr>sessions := (sessions s)(sid \<mapsto> sess\<lparr>ready := False\<rparr>)\<rparr>;
               s2 = log WARN ''Auth failure'' (Some sid) s1
           in Some (emitTo sid (EvStatus AUTH_FAILURE (Some m)) s2)))"

definition on_disconnected :: "string \<Rightarrow> string \<Rightarrow> state \<Rightarrow> state" where
  "on_disconnected sid why s =
     (let s1 = log WARN ''Client disconnected'' (Some sid) s;
          s2 = emitTo sid (EvStatus DISCONNECTED (Some why)) s1
      in deleteSession sid s2)"

subsection \<open>Socket.IO: join-session\<close>

text \<open>The status a joining socket is told: the chain of conditionals of the handler, on
  an entry or on \<open>undefined\<close>. On an inherited value, which is truthy and has neither
  \<open>ready\<close> nor \<open>qrDataUrl\<close>, the chain gives STARTING.\<close>

definition join_status :: "session option \<Rightarrow> status" where
  "join_status e =
     (case e of
        None \<Rightarrow> NOT_STARTED
      | Some sess \<Rightarrow>
          if ready sess then LOGGED_IN
          else if truthy (qrDataUrl sess) then WAITING_QR
          else STARTING)"

definition join_session :: "nat \<Rightarrow> string \<Rightarrow> state \<Rightarrow> state" where
  "join_session sock sid s =
     (if falsy sid then s
      else
        (let s1 = effect (SocketJoin sock sid) s;
             sess = sessions s1 sid;
             st = (case lookup s1 sid of Inherited \<Rightarrow> STARTING | _ \<Rightarrow> join_status sess);
             s2 = effect (SocketEmit sock (EvStatus st None)) s1
         in case sess of
              Some e \<Rightarrow>
                (case qrDataUrl e of
                   Some url \<Rightarrow> if url \<noteq> [] then effect (SocketEmit sock (EvQr url)) s2 else s2
                 | None \<Rightarrow> s2)
            | None \<Rightarrow> s2))"

subsection \<open>REST handlers\<close>

definition start_session :: "string \<Rightarrow> state \<Rightarrow> response \<times> state" where
  "start_session sid s =
     (if falsy sid then (Resp 400 (BError ''sessionId required''), s)
      else
        (case lookup s sid of
           Missing \<Rightarrow>
             (case createSession sid s of
                None \<Rightarrow> (Resp 500 BUncaught, s)
              | Some s1 \<Rightarrow> (Resp 200 (BStatus STARTING), s1))
         | Own sess \<Rightarrow>
             (Resp 200 (BStatus (if ready sess then LOGGED_IN
                                 else if truthy (qrDataUrl sess) then WAITING_QR
                                 else STARTING)), s)
         | Inherited \<Rightarrow> (Resp 200 (BStatus STARTING), s)))"

definition session_status :: "string \<Rightarrow> string outcome \<Rightarrow> state \<Rightarrow> response \<times> state" where
  "session_status sid probe s =
     (case lookup s sid of
        Missing \<Rightarrow> (Resp 200 (BStatus NOT_STARTED), s)
      | Own sess \<Rightarrow>
          (let (st, s1) = ensureConnected sid probe s in
           if ok st then (Resp 200 (BStatus LOGGED_IN), s1)
           else
             (Resp 200 (BStatusQr (if truthy (qrDataUrl sess) then WAITING_QR else NOT_CONNECTED)
                                  (if truthy (qrDataUrl sess) then qrDataUrl sess else None)),
              s1))
      | Inherited \<Rightarrow> (Resp 200 (BStatusQr NOT_CONNECTED None), snd (ensureConnected sid probe s)))"

definition send_message ::
  "string \<Rightarrow> string \<Rightarrow> string \<Rightarrow> string outcome \<Rightarrow> unit outcome \<Rightarrow> state \<Rightarrow> response \<times> state" where
  "send_message sid number message probe sent s =
     (if falsy sid \<or> falsy number \<or> falsy message
      then (Resp 400 (BError ''sessionId, number, message required''), s)
      else
        (case lookup s sid of
           Missing \<Rightarrow> (Resp 404 (BError ''Session not found''), s)
         | Own sess \<Rightarrow>
             (let (st, s1) = ensureConnected sid probe s in
              if \<not> ok st then (Resp 400 (BError ''Session not connected''), s1)
              else
                (let s2 = effect (SendMessage (client sess) (number @ ''@c.us'') (Text message)) s1 in
                 case sent of
                   Resolved _ \<Rightarrow>
                     (let s3 = emitTo sid (EvSent number ''text'' None) s2
                      in (Resp 200 (BStatus SENT), log INFO ''Text sent'' (Some sid) s3))
                 | Rejected \<Rightarrow>
                     (Resp 500 (BError ''Failed to send message''),
                      log ERROR ''Send text failed'' (Some sid) s2)))
         | Inherited \<Rightarrow>
             (Resp 400 (BError ''Session not connected''), snd (ensureConnected sid probe s))))"

definition UPLOAD_DIR :: "state \<Rightarrow> string" where
  "UPLOAD_DIR s = pathJoin s (dirname s) ''uploads''"

definition SENT_DIR :: "state \<Rightarrow> string" where
  "SENT_DIR s = pathJoin s (dirname s) ''sent_files''"

definition mimeType :: "string option \<Rightarrow> string" where
  "mimeType looked = (if truthy looked then (case looked of Some m \<Rightarrow> m | None \<Rightarrow> [])
                      else ''application/octet-stream'')"

text \<open>The \<open>catch\<close> branch of the media handler.\<close>

definition send_media_failed :: "string \<Rightarrow> upload \<Rightarrow> state \<Rightarrow> response \<times> state" where
  "send_media_failed sid file s =
     (Resp 500 (BError ''Failed to send media''),
      effect (UnlinkSync (path file)) (log ERROR ''Send media failed'' (Some sid) s))"

definition send_media ::
  "string \<Rightarrow> string \<Rightarrow> string option \<Rightarrow> upload option \<Rightarrow> string outcome \<Rightarrow> media_io \<Rightarrow> state
     \<Rightarrow> response \<times> state" where
  "send_media sid number caption upl probe io s =
     (case (if falsy sid \<or> falsy number then None else upl) of
        None \<Rightarrow> (Resp 400 (BError ''sessionId, number, file required''), s)
      | Some file \<Rightarrow>
        (case lookup s sid of
           Missing \<Rightarrow> (Resp 404 (BError ''Session not found''), s)
         | Inherited \<Rightarrow>
             (Resp 400 (BError ''Session not connected''),
              effect (UnlinkSync (path file)) (snd (ensureConnected sid probe s)))
         | Own sess \<Rightarrow>
             (let (st, s1) = ensureConnected sid probe s in
              if \<not> ok st
              then (Resp 400 (BError ''Session not connected''), effect (UnlinkSync (path file)) s1)
              else
                (let absPath = pathJoin s1 (UPLOAD_DIR s1) (filename file);
                     s2 = effect (ReadFileSync absPath) s1 in
                 case readFile io of
                   Rejected \<Rightarrow> send_media_failed sid file s2
                 | Resolved base64 \<Rightarrow>
                     (let media = Media (mimeType (mimeLookup io)) base64 (originalname file) caption;
                          s3 = effect (SendMessage (client sess) (number @ ''@c.us'') media) s2 in
                      case sendResult io of
                        Rejected \<Rightarrow> send_media_failed sid file s3
                      | Resolved _ \<Rightarrow>
                          (let s4 = emitTo sid (EvSent number ''media'' (Some (originalname file))) s3;
                               s5 = log INFO ''Media sent'' (Some sid) s4;
                               finalPath = pathJoin s5 (SENT_DIR s5) (originalname file);
                               s6 = effect (RenameSync absPath finalPath) s5 in
                           case renameResult io of
                             Rejected \<Rightarrow> send_media_failed sid file s6
                           | Resolved _ \<Rightarrow> (Resp 200 (BStatus SENT), s6)))))))"

text \<open>
  \<open>try { await sess.client.logout(); } catch (_) {}\<close>: the call is made, and both ways it
  can end lead to the same next statement. On an inherited value \<open>sess.client\<close> is
  \<open>undefined\<close>: reading \<open>logout\<close> of it is a \<open>TypeError\<close>, swallowed by the same
  \<open>catch\<close>, and no client is called.
\<close>

definition logout_swallowed :: "nat \<Rightarrow> unit outcome \<Rightarrow> state \<Rightarrow> state" where
  "logout_swallowed h res s =
     (let s1 = effect (Logout h) s in case res of Resolved _ \<Rightarrow> s1 | Rejected \<Rightarrow> s1)"

definition logout_session :: "string \<Rightarrow> unit outcome \<Rightarrow> state \<Rightarrow> response \<times> state" where
  "logout_session sid res s =
     (if falsy sid then (Resp 400 (BError ''sessionId required''), s)
      else
        (case lookup s sid of
           Missing \<Rightarrow> (Resp 404 (BError ''Session not found''), s)
         | Own sess \<Rightarrow>
             (let s1 = logout_swallowed (client sess) res s;
                  s2 = deleteSession sid s1;
                  s3 = log INFO ''Logged out'' (Some sid) s2;
                  s4 = emitTo sid (EvStatus LOGGED_OUT None) s3
              in (Resp 200 (BStatus LOGGED_OUT), s4))
         | Inherited \<Rightarrow>
             (let s2 = deleteSession sid s;
                  s3 = log INFO ''Logged out'' (Some sid) s2;
                  s4 = emitTo sid (EvStatus LOGGED_OUT None) s3
              in (Resp 200 (BStatus LOGGED_OUT), s4))))"

subsection \<open>Credential directories\<close>

text \<open>
  The loop shared by delete-cache and force-reset:
  \<^verbatim>\<open>for (const d of dirs) { if (fs.existsSync(d)) { fs.rmSync(d, ...); deleted.push(d); } }\<close>
  with \<open>{ recursive: true, force: true }\<close>. The result is \<open>None\<close> when \<open>fs.rmSync\<close>
  threw; the state is the one reached by then.
\<close>

fun removeDirs :: "string list \<Rightarrow> string list \<Rightarrow> state \<Rightarrow> string list option \<times> state" where
  "removeDirs [] deleted s = (Some deleted, s)"
| "removeDirs (d # ds) deleted s =
     (if d \<in> existing s
      then (let s1 = effect (RmSync d) s in
            if d \<in> locked s1 then (None, s1)
            else removeDirs ds (deleted @ [d])
                   (s1\<lparr>existing := existing s1 - insert d (below s1 d)\<rparr>))
      else removeDirs ds deleted s)"

definition delete_cache :: "string \<Rightarrow> state \<Rightarrow> response \<times> state" where
  "delete_cache sid s =
     (if falsy sid then (Resp 400 (BError ''sessionId required''), s)
      else
        (case removeDirs (getAuthDirsForSession sid s) [] s of
           (Some deleted, s1) \<Rightarrow>
             (Resp 200 (BDeleted CACHE_DELETED deleted), log INFO ''Cache deleted'' (Some sid) s1)
         | (None, s1) \<Rightarrow> (Unanswered, s1)))"

text \<open>The first half of force-reset, \<open>if (sessions[sessionId]?.client) { ... }\<close>: log the
  client out, if there is one, and drop the entry. An inherited value has no client.\<close>

definition force_logout :: "string \<Rightarrow> unit outcome \<Rightarrow> state \<Rightarrow> state" where
  "force_logout sid res s =
     (case sessions s sid of
        None \<Rightarrow> s
      | Some sess \<Rightarrow>
          (let s1 = logout_swallowed (client sess) res s
           in deleteSession sid s1))"

definition force_reset :: "string \<Rightarrow> unit outcome \<Rightarrow> state \<Rightarrow> response \<times> state" where
  "force_reset sid res s =
     (if falsy sid then (Resp 400 (BError ''sessionId required''), s)
      else
        (let s1 = force_logout sid res s in
         case removeDirs (getAuthDirsForSession sid s1) [] s1 of
           (Some deleted, s2) \<Rightarrow>
             (Resp 200 (BDeleted FORCE_RESET_DONE deleted),
              log INFO ''Force reset complete'' (Some sid) s2)
         | (None, s2) \<Rightarrow>
             (Resp 500 (BError ''Force reset failed''),
              log ERROR ''Force reset failed'' (Some sid) s2)))"

subsection \<open>The second variant of the media handler\<close>

text \<open>
  The file holds a second copy of the server. Its \<open>/send-media\<close> differs from the one
  above: it looks at the entry's \<open>ready\<close> flag and never asks the client for its state.
  It takes no caption, creates the folder of sent files when that is missing, and its
  \<open>catch\<close> branch does not remove the upload. \<open>renameResult\<close> stands for the creation
  of the folder and the rename together.
\<close>

definition send_media_v2 ::
  "string \<Rightarrow> string \<Rightarrow> upload option \<Rightarrow> media_io \<Rightarrow> state \<Rightarrow> response \<times> state" where
  "send_media_v2 sid number upl io s =
     (case lookup s sid of
        Missing \<Rightarrow> (Resp 400 (BError ''Session not found''), s)
      | Inherited \<Rightarrow> (Resp 400 (BError ''Session not ready''), s)
      | Own sess \<Rightarrow>
          if \<not> ready sess then (Resp 400 (BError ''Session not ready''), s)
          else
            (case upl of
               None \<Rightarrow> (Resp 400 (BError ''No file uploaded''), s)
             | Some file \<Rightarrow>
                 (let filePath = pathJoin s (pathJoin s (dirname s) ''uploads'') (filename file);
                      s1 = effect (ReadFileSync filePath) s in
                  case readFile io of
                    Rejected \<Rightarrow> (Resp 500 (BError ''Failed to send media''), s1)
                  | Resolved fileData \<Rightarrow>
                      (let media = Media (mimeType (mimeLookup io)) fileData (originalname file) None;
                           s2 = effect (SendMessage (client sess) (number @ ''@c.us'') media) s1 in
                       case sendResult io of
                         Rejected \<Rightarrow> (Resp 500 (BError ''Failed to send media''), s2)
                       | Resolved _ \<Rightarrow>
                           (let sentFilesDir = pathJoin s2 (dirname s2) ''sent_files'';
                                s3 = (if sentFilesDir \<in> existing s2 then s2
                                      else (effect (MkdirSync sentFilesDir) s2)
                                             \<lparr>existing := insert sentFilesDir (existing s2)\<rparr>);
                                s4 = effect (RenameSync filePath
                                               (pathJoin s3 sentFilesDir (originalname file))) s3 in
                            case renameResult io of
                              Rejected \<Rightarrow> (Resp 500 (BError ''Failed to send media''), s4)
                            | Resolved _ \<Rightarrow> (Resp 200 (BStatus Media_sent_successfully), s4))))))"

subsection \<open>Operations, actions and runs\<close>

text \<open>The caller-facing operations, each with the tenant id it names and with what the
  collaborators answer while it runs.\<close>

datatype operation =
    Start string
  | QueryStatus string "string outcome"
  | SendText string string string "string outcome" "unit outcome"
  | SendMedia string string "string option" "upload option" "string outcome" media_io
  | LogoutOp string "unit outcome"
  | DeleteCredentials string
  | ForceReset string "unit outcome"

fun tenant :: "operation \<Rightarrow> string" where
  "tenant (Start sid) = sid"
| "tenant (QueryStatus sid _) = sid"
| "tenant (SendText sid _ _ _ _) = sid"
| "tenant (SendMedia sid _ _ _ _ _) = sid"
| "tenant (LogoutOp sid _) = sid"
| "tenant (DeleteCredentials sid) = sid"
| "tenant (ForceReset sid _) = sid"

fun perform :: "operation \<Rightarrow> state \<Rightarrow> response \<times> state" where
  "perform (Start sid) s = start_session sid s"
| "perform (QueryStatus sid probe) s = session_status sid probe s"
| "perform (SendText sid number message probe sent) s = send_message sid number message probe sent s"
| "perform (SendMedia sid number caption upl probe io) s = send_media sid number caption upl probe io s"
| "perform (LogoutOp sid res) s = logout_session sid res s"
| "perform (DeleteCredentials sid) s = delete_cache sid s"
| "perform (ForceReset sid res) s = force_reset sid res s"

text \<open>Everything that can happen to the server: a request, a socket joining, or an event
  of a client. A handler that throws leaves the state as it was.\<close>

datatype action =
    Request operation
  | Join nat string
  | QrEvent string "string outcome"
  | AuthenticatedEvent string
  | ReadyEvent string
  | AuthFailureEvent string string
  | DisconnectedEvent string string

fun step :: "action \<Rightarrow> state \<Rightarrow> state" where
  "step (Request op) s = snd (perform op s)"
| "step (Join sock sid) s = join_session sock sid s"
| "step (QrEvent sid dataUrl) s = on_qr sid dataUrl s"
| "step (AuthenticatedEvent sid) s = on_authenticated sid s"
| "step (ReadyEvent sid) s = (case on_ready sid s of Some s1 \<Rightarrow> s1 | None \<Rightarrow> s)"
| "step (AuthFailureEvent sid m) s = (case on_auth_failure sid m s of Some s1 \<Rightarrow> s1 | None \<Rightarrow> s)"
| "step (DisconnectedEvent sid why) s = on_disconnected sid why s"

fun run :: "action list \<Rightarrow> state \<Rightarrow> state" where
  "run [] s = s"
| "run (a # as) s = run as (step a s)"

text \<open>The server right after start-up: no session, nothing logged, nothing done yet.\<close>

definition initial ::
  "string \<Rightarrow> string \<Rightarrow> string set \<Rightarrow> string set \<Rightarrow> (string \<Rightarrow> string \<Rightarrow> string)
     \<Rightarrow> (string \<Rightarrow> string set) \<Rightarrow> state" where
  "initial c d ex lk pj bl =
     \<lparr>sessions = Map.empty, nextHandle = 0, trace = [], logs = [],
      cwd = c, dirname = d, existing = ex, locked = lk, pathJoin = pj, below = bl\<rparr>"

text \<open>The part of the state that describes the environment: no handler changes it.\<close>

definition same_env :: "state \<Rightarrow> state \<Rightarrow> bool" where
  "same_env s s' \<longleftrightarrow>
     pathJoin s' = pathJoin s \<and> below s' = below s \<and> cwd s' = cwd s \<and> dirname s' = dirname s
     \<and> locked s' = locked s"

subsection \<open>Observations on the trace\<close>

text \<open>The statuses broadcast to the room of a session id, oldest first, and the last of
  them: what the observers of that tenant were told most recently.\<close>

fun broadcasts :: "string \<Rightarrow> effect list \<Rightarrow> status list" where
  "broadcasts sid [] = []"
| "broadcasts sid (Emit room (EvStatus st d) # es) =
     (if room = sid then st # broadcasts sid es else broadcasts sid es)"
| "broadcasts sid (e # es) = broadcasts sid es"

definition last_status :: "string \<Rightarrow> state \<Rightarrow> status option" where
  "last_status sid s =
     (if broadcasts sid (trace s) = [] then None else Some (last (broadcasts sid (trace s))))"

text \<open>The clients constructed for a session id so far.\<close>

definition adapters :: "string \<Rightarrow> state \<Rightarrow> nat list" where
  "adapters sid s = [h. NewClient h sid' \<leftarrow> trace s, sid' = sid]"

text \<open>The QR payload stored for a session id: \<open>None\<close> when there is no entry or the
  entry holds \<open>null\<close>.\<close>

definition stored_artifact :: "string \<Rightarrow> state \<Rightarrow> string option" where
  "stored_artifact sid s = (case sessions s sid of None \<Rightarrow> None | Some e \<Rightarrow> qrDataUrl e)"

text \<open>
  A step is quiet for a tenant when it changes neither the stored payload nor what the
  room was told. \<open>told\<close> lists the broadcast statuses under which a payload may be
  stored, and \<open>artifact_told\<close> is the invariant built from it.
\<close>

definition quiet :: "string \<Rightarrow> state \<Rightarrow> state \<Rightarrow> bool" where
  "quiet t s s' \<longleftrightarrow>
     stored_artifact t s' = stored_artifact t s \<and> broadcasts t (trace s') = broadcasts t (trace s)"

definition told :: "status option set" where
  "told = {Some WAITING_QR, Some AUTHENTICATED, Some AUTH_FAILURE}"

definition artifact_told :: "state \<Rightarrow> bool" where
  "artifact_told s \<longleftrightarrow> (\<forall>t. stored_artifact t s \<noteq> None \<longrightarrow> last_status t s \<in> told)"

subsection \<open>Example states\<close>

text \<open>
  What \<open>path.join\<close> gives for the plain names used in the examples, and a file system
  in which an earlier run of tenant carol has left a credential directory with a browser
  profile inside.
\<close>

definition slash_join :: "string \<Rightarrow> string \<Rightarrow> string" where
  "slash_join a b = a @ ''/'' @ b"

definition carol_profile :: "string \<Rightarrow> string set" where
  "carol_profile d =
     (if d = ''/srv/.wwebjs_auth/session-carol''
      then {''/srv/.wwebjs_auth/session-carol/Default''} else {})"

text \<open>A server started in \<open>/srv\<close> on that file system, and the states it reaches in the
  scenarios used below.\<close>

definition srv :: state where
  "srv = initial ''/srv'' ''/srv/backend''
           {''/srv/.wwebjs_auth/session-carol'', ''/srv/.wwebjs_auth/session-carol/Default''} {}
           slash_join carol_profile"

definition alice_started :: state where
  "alice_started = run [Request (Start ''alice'')] srv"

definition alice_waiting :: state where
  "alice_waiting =
     run [Request (Start ''alice''), QrEvent ''alice'' (Resolved ''data:image/png;base64,XYZ'')] srv"

definition alice_authenticated :: state where
  "alice_authenticated =
     run [Request (Start ''alice''), QrEvent ''alice'' (Resolved ''data:image/png;base64,XYZ''),
          AuthenticatedEvent ''alice''] srv"

definition alice_auth_failed :: state where
  "alice_auth_failed =
     run [Request (Start ''alice''), AuthFailureEvent ''alice'' ''rejected''] srv"

definition carol_live :: state where
  "carol_live = run [Request (Start ''alice''), Request (Start ''carol'')] srv"

text \<open>
  An entry whose \<open>ready\<close> flag was set by the \<open>ready\<close> event, as both copies of the
  server leave it; an uploaded file; and collaborators of which the client fails to send.
\<close>

definition alice_cached_ready :: state where
  "alice_cached_ready =
     \<lparr>sessions = [''alice'' \<mapsto> \<lparr>client = 0, ready = True, qrDataUrl = None\<rparr>],
      nextHandle = 1,
      trace = [NewClient 0 ''alice'', Initialize 0, Emit ''alice'' (EvStatus LOGGED_IN None)],
      logs = [], cwd = ''/srv'', dirname = ''/srv/backend'', existing = {}, locked = {},
      pathJoin = slash_join, below = (\<lambda>d. {})\<rparr>"

definition report_pdf :: upload where
  "report_pdf = \<lparr>path = ''/srv/backend/uploads/f1'', filename = ''f1'', originalname = ''report.pdf''\<rparr>"

definition send_fails :: media_io where
  "send_fails = \<lparr>readFile = Resolved ''JVBERi0='', mimeLookup = Some ''application/pdf'',
                  sendResult = Rejected, renameResult = Resolved ()\<rparr>"

section \<open>Basic facts\<close>

text \<open>What the small helpers leave alone.\<close>

lemma log_proj [simp]:
  "sessions (log l m sid s) = sessions s"
  "nextHandle (log l m sid s) = nextHandle s"
  "trace (log l m sid s) = trace s"
  "cwd (log l m sid s) = cwd s"
  "dirname (log l m sid s) = dirname s"
  "existing (log l m sid s) = existing s"
  "locked (log l m sid s) = locked s"
  "pathJoin (log l m sid s) = pathJoin s"
  "below (log l m sid s) = below s"
  by (simp_all add: log_def Let_def)

lemma effect_proj [simp]:
  "sessions (effect e s) = sessions s"
  "nextHandle (effect e s) = nextHandle s"
  "trace (effect e s) = trace s @ [e]"
  "logs (effect e s) = logs s"
  "cwd (effect e s) = cwd s"
  "dirname (effect e s) = dirname s"
  "existing (effect e s) = existing s"
  "locked (effect e s) = locked s"
  "pathJoin (effect e s) = pathJoin s"
  "below (effect e s) = below s"
  by (simp_all add: effect_def)

lemma emitTo_proj [simp]:
  "sessions (emitTo r ev s) = sessions s"
  "nextHandle (emitTo r ev s) = nextHandle s"
  "trace (emitTo r ev s) = trace s @ [Emit r ev]"
  "logs (emitTo r ev s) = logs s"
  "cwd (emitTo r ev s) = cwd s"
  "dirname (emitTo r ev s) = dirname s"
  "existing (emitTo r ev s) = existing s"
  "locked (emitTo r ev s) = locked s"
  "pathJoin (emitTo r ev s) = pathJoin s"
  "below (emitTo r ev s) = below s"
  by (simp_all add: emitTo_def)

lemma deleteSession_proj [simp]:
  "sessions (deleteSession sid s) = (sessions s)(sid := None)"
  "nextHandle (deleteSession sid s) = nextHandle s"
  "trace (deleteSession sid s) = trace s @ [DeleteSession sid]"
  "logs (deleteSession sid s) = logs s"
  "cwd (deleteSession sid s) = cwd s"
  "dirname (deleteSession sid s) = dirname s"
  "existing (deleteSession sid s) = existing s"
  "locked (deleteSession sid s) = locked s"
  "pathJoin (deleteSession sid s) = pathJoin s"
  "below (deleteSession sid s) = below s"
  by (simp_all add: deleteSession_def)

lemma createSession_None: "createSession sid s = None \<longleftrightarrow> \<not> LocalAuth_accepts sid"
  by (simp add: createSession_def Let_def)

lemma createSession_Some:
  assumes "createSession sid s = Some s1"
  shows "sessions s1 =
           (sessions s)(sid \<mapsto> \<lparr>client = nextHandle s, ready = False, qrDataUrl = None\<rparr>)"
    and "nextHandle s1 = Suc (nextHandle s)"
    and "trace s1 = trace s @ [NewClient (nextHandle s) sid, Initialize (nextHandle s)]"
    and "cwd s1 = cwd s" and "dirname s1 = dirname s"
    and "existing s1 = existing s" and "locked s1 = locked s"
    and "pathJoin s1 = pathJoin s" and "below s1 = below s"
    and "LocalAuth_accepts sid"
  using assms by (auto simp: createSession_def Let_def split: if_splits)

lemma lookup_simps:
  "sessions s sid = Some e \<Longrightarrow> lookup s sid = Own e"
  "sessions s sid = None \<Longrightarrow> sid \<notin> set Object_prototype \<Longrightarrow> lookup s sid = Missing"
  "sessions s sid = None \<Longrightarrow> sid \<in> set Object_prototype \<Longrightarrow> lookup s sid = Inherited"
  by (simp_all add: lookup_def)

lemma lookup_cases:
  obtains (Missing) "lookup s sid = Missing" "sessions s sid = None" "sid \<notin> set Object_prototype"
  | (Inherited) "lookup s sid = Inherited" "sessions s sid = None" "sid \<in> set Object_prototype"
  | (Own) e where "lookup s sid = Own e" "sessions s sid = Some e"
  by (cases "sessions s sid") (auto simp: lookup_def)

lemma logout_swallowed_eq [simp]: "logout_swallowed h res s = effect (Logout h) s"
  by (simp add: logout_swallowed_def Let_def split: outcome.splits)

lemma broadcasts_append: "broadcasts sid (xs @ ys) = broadcasts sid xs @ broadcasts sid ys"
  by (induction sid xs rule: broadcasts.induct) simp_all

lemma last_status_emit:
  "trace s' = trace s @ [Emit sid (EvStatus st d)] \<Longrightarrow> last_status sid s' = Some st"
  by (simp add: last_status_def broadcasts_append)

lemma join_session_sessions [simp]: "sessions (join_session sock sid s) = sessions s"
  by (simp add: join_session_def Let_def split: option.splits)

text \<open>The example states, evaluated.\<close>

lemma names_ordinary:
  "''alice'' \<notin> set Object_prototype" "''bob'' \<notin> set Object_prototype"
  "''carol'' \<notin> set Object_prototype" "''bob.smith'' \<notin> set Object_prototype"
  "''constructor'' \<in> set Object_prototype"
  by (simp_all add: Object_prototype_def)

lemma names_accepted:
  "LocalAuth_accepts ''alice''" "LocalAuth_accepts ''carol''" "LocalAuth_accepts ''constructor''"
  "\<not> LocalAuth_accepts ''bob.smith''"
  by (simp_all add: LocalAuth_accepts_def idChars_def)

lemmas examples =
  srv_def alice_started_def alice_waiting_def alice_authenticated_def alice_auth_failed_def
  carol_live_def initial_def start_session_def createSession_def lookup_def names_ordinary
  names_accepted on_qr_def on_authenticated_def on_auth_failure_def falsy_def Let_def

lemma srv_sessions: "sessions srv = Map.empty"
  by (simp add: srv_def initial_def)

lemma srv_fs:
  "cwd srv = ''/srv''"
  "existing srv = {''/srv/.wwebjs_auth/session-carol'', ''/srv/.wwebjs_auth/session-carol/Default''}"
  "locked srv = {}" "trace srv = []" "pathJoin srv = slash_join" "below srv = carol_profile"
  "nextHandle srv = 0"
  by (simp_all add: srv_def initial_def)

lemma alice_started_eq: "alice_started = snd (start_session ''alice'' srv)"
  by (simp add: alice_started_def)

lemma alice_started_sessions:
  "sessions alice_started = [''alice'' \<mapsto> \<lparr>client = 0, ready = False, qrDataUrl = None\<rparr>]"
  by (simp add: examples)

lemma alice_started_trace: "trace alice_started = [NewClient 0 ''alice'', Initialize 0]"
  by (simp add: examples)


lemma alice_waiting_sessions:
  "sessions alice_waiting =
     [''alice'' \<mapsto> \<lparr>client = 0, ready = False, qrDataUrl = Some ''data:image/png;base64,XYZ''\<rparr>]"
  by (simp add: examples)

lemma alice_authenticated_sessions:
  "sessions alice_authenticated =
     [''alice'' \<mapsto> \<lparr>client = 0, ready = False, qrDataUrl = Some ''data:image/png;base64,XYZ''\<rparr>]"
  by (simp add: examples)

lemma alice_authenticated_trace:
  "trace alice_authenticated =
     [NewClient 0 ''alice'', Initialize 0,
      Emit ''alice'' (EvQr ''data:image/png;base64,XYZ''),
      Emit ''alice'' (EvStatus WAITING_QR None),
      Emit ''alice'' (EvStatus AUTHENTICATED None)]"
  by (simp add: examples)



lemma carol_live_sessions:
  "sessions carol_live =
     [''alice'' \<mapsto> \<lparr>client = 0, ready = False, qrDataUrl = None\<rparr>,
      ''carol'' \<mapsto> \<lparr>client = 1, ready = False, qrDataUrl = None\<rparr>]"
  by (simp add: examples)

lemma carol_live_fs:
  "cwd carol_live = ''/srv''"
  "existing carol_live =
     {''/srv/.wwebjs_auth/session-carol'', ''/srv/.wwebjs_auth/session-carol/Default''}"
  "locked carol_live = {}" "pathJoin carol_live = slash_join" "below carol_live = carol_profile"
  "trace carol_live = [NewClient 0 ''alice'', Initialize 0, NewClient 1 ''carol'', Initialize 1]"
  by (simp_all add: examples)

lemma authDirs_carol:
  "getAuthDirsForSession ''carol'' srv = [''/srv/.wwebjs_auth/session-carol'', ''/srv/.wwebjs_auth/carol'']"
  "getAuthDirsForSession ''carol'' carol_live = [''/srv/.wwebjs_auth/session-carol'', ''/srv/.wwebjs_auth/carol'']"
  "getAuthDirsForSession ''bob'' srv = [''/srv/.wwebjs_auth/session-bob'', ''/srv/.wwebjs_auth/bob'']"
  by (simp_all add: getAuthDirsForSession_def slash_join_def srv_fs carol_live_fs)

section \<open>Starting a session\<close>

text \<open>
  Claim C1, as the code has it. Take a non-empty tenant id. If it has no entry, names no
  inherited property and is an id \<open>LocalAuth\<close> accepts, one client is constructed, a new
  entry (not ready, no QR payload) is stored and STARTING is answered. If \<open>LocalAuth\<close>
  rejects the id, the request fails with status 500 and nothing is stored or constructed.
  If the id has an entry, the state is left as it was and the answer is computed from the
  entry: LOGGED_IN when its \<open>ready\<close> flag is set, else WAITING_QR when a QR payload is
  stored, else STARTING. In every case a second call right after the first changes nothing
  and answers what the first call answered, and one call constructs at most one client.
\<close>

theorem start_session_idempotent:
  assumes "sid \<noteq> []"
  shows "(sessions s sid = None \<and> sid \<notin> set Object_prototype \<and> LocalAuth_accepts sid \<longrightarrow>
            fst (start_session sid s) = Resp 200 (BStatus STARTING)
          \<and> sessions (snd (start_session sid s)) =
              (sessions s)(sid \<mapsto> \<lparr>client = nextHandle s, ready = False, qrDataUrl = None\<rparr>)
          \<and> adapters sid (snd (start_session sid s)) = adapters sid s @ [nextHandle s]
          \<and> adapters sid (snd (start_session sid (snd (start_session sid s)))) =
              adapters sid s @ [nextHandle s])
       \<and> (sessions s sid = None \<and> sid \<notin> set Object_prototype \<and> \<not> LocalAuth_accepts sid \<longrightarrow>
            start_session sid s = (Resp 500 BUncaught, s))
       \<and> (\<forall>sess. sessions s sid = Some sess \<longrightarrow>
            start_session sid s =
              (Resp 200 (BStatus (if ready sess then LOGGED_IN
                                  else if truthy (qrDataUrl sess) then WAITING_QR
                                  else STARTING)), s))
       \<and> start_session sid (snd (start_session sid s)) = start_session sid s
       \<and> length (adapters sid (snd (start_session sid s))) \<le> Suc (length (adapters sid s))"
  using assms
  by (auto simp: start_session_def createSession_def lookup_def falsy_def truthy_def adapters_def
                 Let_def
           split: option.splits)

theorem start_session_idempotent_witness:
  "''alice'' \<noteq> [] \<and> sessions srv ''alice'' = None \<and> ''alice'' \<notin> set Object_prototype
   \<and> LocalAuth_accepts ''alice''
   \<and> fst (start_session ''alice'' srv) = Resp 200 (BStatus STARTING)
   \<and> adapters ''alice'' alice_started = [0]
   \<and> adapters ''alice'' (snd (start_session ''alice'' alice_started)) = [0]
   \<and> start_session ''alice'' alice_started = (Resp 200 (BStatus STARTING), alice_started)
   \<and> ''bob.smith'' \<noteq> [] \<and> sessions srv ''bob.smith'' = None
   \<and> ''bob.smith'' \<notin> set Object_prototype \<and> \<not> LocalAuth_accepts ''bob.smith''
   \<and> start_session ''bob.smith'' srv = (Resp 500 BUncaught, srv)
   \<and> sessions alice_waiting ''alice'' =
        Some \<lparr>client = 0, ready = False, qrDataUrl = Some ''data:image/png;base64,XYZ''\<rparr>
   \<and> start_session ''alice'' alice_waiting = (Resp 200 (BStatus WAITING_QR), alice_waiting)"
proof -
  have n: "''alice'' \<noteq> []" "''bob.smith'' \<noteq> []" by simp_all
  have a: "sessions srv ''alice'' = None" "sessions srv ''bob.smith'' = None"
    by (simp_all add: srv_sessions)
  have b: "sessions alice_started ''alice'' = Some \<lparr>client = 0, ready = False, qrDataUrl = None\<rparr>"
    by (simp add: alice_started_sessions)
  have w: "sessions alice_waiting ''alice'' =
        Some \<lparr>client = 0, ready = False, qrDataUrl = Some ''data:image/png;base64,XYZ''\<rparr>"
    by (simp add: alice_waiting_sessions)
  have c: "adapters ''alice'' srv = []" "nextHandle srv = 0"
    by (simp_all add: adapters_def srv_fs)
  note S = start_session_idempotent [OF n(1), of srv, THEN conjunct1]
  from S a c names_ordinary names_accepted
  have 1: "fst (start_session ''alice'' srv) = Resp 200 (BStatus STARTING)"
    "adapters ''alice'' alice_started = [0]"
    "adapters ''alice'' (snd (start_session ''alice'' alice_started)) = [0]"
    by (simp_all add: alice_started_eq)
  from start_session_idempotent [OF n(1), of alice_started, THEN conjunct2, THEN conjunct2,
      THEN conjunct1] b
  have 2: "start_session ''alice'' alice_started = (Resp 200 (BStatus STARTING), alice_started)"
    by (simp add: truthy_def)
  from start_session_idempotent [OF n(2), of srv, THEN conjunct2, THEN conjunct1]
    a names_ordinary names_accepted
  have 3: "start_session ''bob.smith'' srv = (Resp 500 BUncaught, srv)"
    by simp
  from start_session_idempotent [OF n(1), of alice_waiting, THEN conjunct2, THEN conjunct2,
      THEN conjunct1] w
  have 4: "start_session ''alice'' alice_waiting = (Resp 200 (BStatus WAITING_QR), alice_waiting)"
    by (simp add: truthy_def)
  from n a w 1 2 3 4 names_ordinary names_accepted show ?thesis by simp
qed

text \<open>
  Claim C1 as stated fails in two ways. For the id \<open>bob.smith\<close>, which has no session,
  no session is created and the answer is not STARTING but an error with status 500. And
  the status start answers is not always the current one: after the authenticated event
  the room of alice has been told AUTHENTICATED, and start answers WAITING_QR.
\<close>

theorem start_session_refused_or_stale:
  "sessions srv ''bob.smith'' = None
   \<and> start_session ''bob.smith'' srv = (Resp 500 BUncaught, srv)
   \<and> last_status ''alice'' alice_authenticated = Some AUTHENTICATED
   \<and> fst (start_session ''alice'' alice_authenticated) = Resp 200 (BStatus WAITING_QR)"
  by (simp add: srv_sessions start_session_def lookup_def createSession_def names_ordinary
                names_accepted falsy_def truthy_def last_status_def alice_authenticated_trace
                alice_authenticated_sessions)

section \<open>The connectivity probe\<close>

text \<open>
  Claim C5. \<open>ensureConnected\<close> reports NO_SESSION when the tenant id has no entry. When
  there is an entry and the client answers the probe, the entry's \<open>ready\<close> flag becomes
  (state = CONNECTED) and the report says the same; when the probe fails, the flag becomes
  false and the report is NOT_CONNECTED. The function returns a report in every case, and
  the reason NO_SESSION is given exactly when there is no entry.
\<close>

theorem ensureConnected_reports:
  "(sessions s sid = None \<longrightarrow>
      ensureConnected sid probe s = (\<lparr>ok = False, reason = Some NO_SESSION\<rparr>, s))
   \<and> (\<forall>sess st. sessions s sid = Some sess \<and> probe = Resolved st \<longrightarrow>
        fst (ensureConnected sid probe s) =
          \<lparr>ok = (st = ''CONNECTED''),
           reason = (if st = ''CONNECTED'' then None else Some NOT_CONNECTED_REASON)\<rparr>
        \<and> sessions (snd (ensureConnected sid probe s)) =
            (sessions s)(sid \<mapsto> sess\<lparr>ready := (st = ''CONNECTED'')\<rparr>))
   \<and> (\<forall>sess. sessions s sid = Some sess \<and> probe = Rejected \<longrightarrow>
        fst (ensureConnected sid probe s) = \<lparr>ok = False, reason = Some NOT_CONNECTED_REASON\<rparr>
        \<and> sessions (snd (ensureConnected sid probe s)) = (sessions s)(sid \<mapsto> sess\<lparr>ready := False\<rparr>))
   \<and> (reason (fst (ensureConnected sid probe s)) = Some NO_SESSION \<longleftrightarrow> sessions s sid = None)"
  by (auto simp: ensureConnected_def Let_def split: option.splits outcome.splits)

theorem ensureConnected_reports_witness:
  "sessions srv ''bob'' = None
   \<and> ensureConnected ''bob'' Rejected srv = (\<lparr>ok = False, reason = Some NO_SESSION\<rparr>, srv)
   \<and> sessions alice_started ''alice'' = Some \<lparr>client = 0, ready = False, qrDataUrl = None\<rparr>
   \<and> fst (ensureConnected ''alice'' (Resolved ''CONNECTED'') alice_started) = \<lparr>ok = True, reason = None\<rparr>
   \<and> sessions (snd (ensureConnected ''alice'' (Resolved ''CONNECTED'') alice_started)) ''alice'' =
        Some \<lparr>client = 0, ready = True, qrDataUrl = None\<rparr>
   \<and> fst (ensureConnected ''alice'' (Resolved ''OPENING'') alice_started) =
        \<lparr>ok = False, reason = Some NOT_CONNECTED_REASON\<rparr>
   \<and> fst (ensureConnected ''alice'' Rejected alice_started) =
        \<lparr>ok = False, reason = Some NOT_CONNECTED_REASON\<rparr>"
proof -
  have a: "sessions srv ''bob'' = None" by (simp add: srv_sessions)
  have b: "sessions alice_started ''alice'' = Some \<lparr>client = 0, ready = False, qrDataUrl = None\<rparr>"
    by (simp add: alice_started_sessions)
  from ensureConnected_reports [of srv "''bob''" Rejected] a
  have 1: "ensureConnected ''bob'' Rejected srv = (\<lparr>ok = False, reason = Some NO_SESSION\<rparr>, srv)"
    by simp
  from ensureConnected_reports [of alice_started "''alice''" "Resolved ''CONNECTED''"] b
  have 2: "fst (ensureConnected ''alice'' (Resolved ''CONNECTED'') alice_started) = \<lparr>ok = True, reason = None\<rparr>"
    "sessions (snd (ensureConnected ''alice'' (Resolved ''CONNECTED'') alice_started)) ''alice'' =
        Some \<lparr>client = 0, ready = True, qrDataUrl = None\<rparr>"
    by simp_all
  from ensureConnected_reports [of alice_started "''alice''" "Resolved ''OPENING''"] b
  have 3: "fst (ensureConnected ''alice'' (Resolved ''OPENING'') alice_started) =
        \<lparr>ok = False, reason = Some NOT_CONNECTED_REASON\<rparr>"
    by simp
  from ensureConnected_reports [of alice_started "''alice''" Rejected] b
  have 4: "fst (ensureConnected ''alice'' Rejected alice_started) =
        \<lparr>ok = False, reason = Some NOT_CONNECTED_REASON\<rparr>"
    by simp
  from a b 1 2 3 4 show ?thesis by simp
qed

section \<open>Logging out\<close>

text \<open>
  For a non-empty tenant id that names no inherited property, logout answers 404 "Session
  not found" when there is no entry. When there is an entry, the client's logout is called,
  the entry is removed, the room is told LOGGED_OUT and LOGGED_OUT is answered, whether the
  client's logout resolved or rejected.
\<close>

lemma logout_session_ordinary:
  assumes "sid \<noteq> []"
  shows "(sessions s sid = None \<and> sid \<notin> set Object_prototype \<longrightarrow>
            logout_session sid res s = (Resp 404 (BError ''Session not found''), s))
       \<and> (\<forall>sess. sessions s sid = Some sess \<longrightarrow>
            fst (logout_session sid res s) = Resp 200 (BStatus LOGGED_OUT)
          \<and> sessions (snd (logout_session sid res s)) = (sessions s)(sid := None)
          \<and> trace (snd (logout_session sid res s)) =
              trace s @ [Logout (client sess), DeleteSession sid,
                         Emit sid (EvStatus LOGGED_OUT None)])
       \<and> logout_session sid Rejected s = logout_session sid (Resolved ()) s"
  using assms
  by (auto simp: logout_session_def lookup_def falsy_def Let_def split: option.splits)

text \<open>
  Claim C6 at an inherited name. No session was ever started for the id \<open>constructor\<close>,
  yet \<open>sessions["constructor"]\<close> is truthy, so the guard that answers 404 is passed: the
  handler answers LOGGED_OUT and tells the room LOGGED_OUT, without calling any client. For
  an ordinary id without a session, such as \<open>bob\<close>, the same handler answers 404.
\<close>

theorem logout_session_inherited_name:
  "''constructor'' \<noteq> [] \<and> sessions srv ''constructor'' = None
   \<and> fst (logout_session ''constructor'' (Resolved ()) srv) = Resp 200 (BStatus LOGGED_OUT)
   \<and> trace (snd (logout_session ''constructor'' (Resolved ()) srv)) =
        [DeleteSession ''constructor'', Emit ''constructor'' (EvStatus LOGGED_OUT None)]
   \<and> fst (logout_session ''bob'' (Resolved ()) srv) = Resp 404 (BError ''Session not found'')"
  by (simp add: logout_session_def lookup_def srv_sessions srv_fs names_ordinary falsy_def Let_def)

section \<open>The ready event\<close>

text \<open>
  Claim C7. When the ready event fires for a tenant id that has an entry, the handler
  completes, the entry is ready (its status is LOGGED_IN, and LOGGED_IN is what the room is
  told) and its QR payload is \<open>null\<close>, whatever was stored before.
\<close>

theorem on_ready_clears_artifact:
  assumes "sessions s sid = Some sess"
  shows "\<exists>s'. on_ready sid s = Some s'
          \<and> sessions s' = (sessions s)(sid \<mapsto> sess\<lparr>ready := True, qrDataUrl := None\<rparr>)
          \<and> join_status (sessions s' sid) = LOGGED_IN
          \<and> last_status sid s' = Some LOGGED_IN
          \<and> trace s' = trace s @ [Emit sid (EvStatus LOGGED_IN None)]
          \<and> map_option qrDataUrl (sessions s' sid) = Some None"
  using assms
  by (simp add: on_ready_def Let_def join_status_def last_status_emit)

theorem on_ready_clears_artifact_witness:
  "sessions alice_waiting ''alice'' =
     Some \<lparr>client = 0, ready = False, qrDataUrl = Some ''data:image/png;base64,XYZ''\<rparr>
   \<and> (\<exists>s'. on_ready ''alice'' alice_waiting = Some s'
          \<and> sessions s' ''alice'' = Some \<lparr>client = 0, ready = True, qrDataUrl = None\<rparr>
          \<and> last_status ''alice'' s' = Some LOGGED_IN)"
proof -
  have a: "sessions alice_waiting ''alice'' =
     Some \<lparr>client = 0, ready = False, qrDataUrl = Some ''data:image/png;base64,XYZ''\<rparr>"
    by (simp add: alice_waiting_sessions)
  from on_ready_clears_artifact [OF a] obtain s' where
    "on_ready ''alice'' alice_waiting = Some s'"
    "sessions s' = (sessions alice_waiting)(''alice'' \<mapsto>
        \<lparr>client = 0, ready = False, qrDataUrl = Some ''data:image/png;base64,XYZ''\<rparr>
        \<lparr>ready := True, qrDataUrl := None\<rparr>)"
    "last_status ''alice'' s' = Some LOGGED_IN"
    by blast
  with a show ?thesis by simp
qed

section \<open>Joining a room\<close>




section \<open>Credential directories\<close>

text \<open>The loop over the directories: what it leaves alone, what it records, and what it
  gives when no removal is refused.\<close>

lemma removeDirs_sessions [simp]: "sessions (snd (removeDirs ds acc s)) = sessions s"
  by (induction ds arbitrary: acc s) (simp_all add: Let_def)

lemma removeDirs_cwd [simp]: "cwd (snd (removeDirs ds acc s)) = cwd s"
  by (induction ds arbitrary: acc s) (simp_all add: Let_def)

lemma removeDirs_locked [simp]: "locked (snd (removeDirs ds acc s)) = locked s"
  by (induction ds arbitrary: acc s) (simp_all add: Let_def)

lemma removeDirs_below [simp]: "below (snd (removeDirs ds acc s)) = below s"
  by (induction ds arbitrary: acc s) (simp_all add: Let_def)

lemma removeDirs_pathJoin [simp]: "pathJoin (snd (removeDirs ds acc s)) = pathJoin s"
  by (induction ds arbitrary: acc s) (simp_all add: Let_def)

lemma removeDirs_trace:
  "\<exists>rms. trace (snd (removeDirs ds acc s)) = trace s @ map RmSync rms \<and> set rms \<subseteq> set ds"
proof (induction ds arbitrary: acc s)
  case Nil
  show ?case by simp
next
  case (Cons d ds)
  show ?case
  proof (cases "d \<in> existing s")
    case False
    with Cons.IH [of acc s] show ?thesis by auto
  next
    case True
    show ?thesis
    proof (cases "d \<in> locked s")
      case True
      with \<open>d \<in> existing s\<close> have "trace (snd (removeDirs (d # ds) acc s)) = trace s @ map RmSync [d]"
        by (simp add: Let_def)
      then show ?thesis by (intro exI [of _ "[d]"]) simp
    next
      case False
      let ?s1 = "(effect (RmSync d) s)
                   \<lparr>existing := existing (effect (RmSync d) s) - insert d (below (effect (RmSync d) s) d)\<rparr>"
      from Cons.IH [of "acc @ [d]" ?s1] obtain rms where
        r: "trace (snd (removeDirs ds (acc @ [d]) ?s1)) = trace ?s1 @ map RmSync rms" "set rms \<subseteq> set ds"
        by blast
      from False \<open>d \<in> existing s\<close> r(1)
      have "trace (snd (removeDirs (d # ds) acc s)) = trace s @ map RmSync (d # rms)"
        by (simp add: Let_def)
      with r(2) show ?thesis by (intro exI [of _ "d # rms"]) auto
    qed
  qed
qed

lemma removeDirs_unlocked:
  "set ds \<inter> locked s = {} \<Longrightarrow>
     \<exists>del. fst (removeDirs ds acc s) = Some (acc @ del)
         \<and> trace (snd (removeDirs ds acc s)) = trace s @ map RmSync del
         \<and> existing (snd (removeDirs ds acc s)) =
             existing s - (\<Union>d\<in>set del. insert d (below s d))
         \<and> set del \<subseteq> set ds \<inter> existing s
         \<and> set ds \<inter> existing (snd (removeDirs ds acc s)) = {}"
proof (induction ds arbitrary: acc s)
  case Nil
  show ?case by simp
next
  case (Cons d ds)
  show ?case
  proof (cases "d \<in> existing s")
    case False
    from Cons.prems have "set ds \<inter> locked s = {}" by auto
    from Cons.IH [OF this, of acc] obtain del where
      r: "fst (removeDirs ds acc s) = Some (acc @ del)"
         "trace (snd (removeDirs ds acc s)) = trace s @ map RmSync del"
         "existing (snd (removeDirs ds acc s)) = existing s - (\<Union>d\<in>set del. insert d (below s d))"
         "set del \<subseteq> set ds \<inter> existing s"
         "set ds \<inter> existing (snd (removeDirs ds acc s)) = {}"
      by blast
    from False r show ?thesis
      by (intro exI [of _ del]) auto
  next
    case True
    let ?s1 = "(effect (RmSync d) s)
                 \<lparr>existing := existing (effect (RmSync d) s) - insert d (below (effect (RmSync d) s) d)\<rparr>"
    from Cons.prems have "set ds \<inter> locked ?s1 = {}" and nl: "d \<notin> locked s" by auto
    from Cons.IH [OF this(1), of "acc @ [d]"] obtain del where
      r: "fst (removeDirs ds (acc @ [d]) ?s1) = Some ((acc @ [d]) @ del)"
         "trace (snd (removeDirs ds (acc @ [d]) ?s1)) = trace ?s1 @ map RmSync del"
         "existing (snd (removeDirs ds (acc @ [d]) ?s1)) =
            existing ?s1 - (\<Union>d\<in>set del. insert d (below ?s1 d))"
         "set del \<subseteq> set ds \<inter> existing ?s1"
         "set ds \<inter> existing (snd (removeDirs ds (acc @ [d]) ?s1)) = {}"
      by blast
    have e: "removeDirs (d # ds) acc s = removeDirs ds (acc @ [d]) ?s1"
      using True nl by (simp add: Let_def)
    have "fst (removeDirs (d # ds) acc s) = Some (acc @ d # del)"
      using r(1) e by simp
    moreover have "trace (snd (removeDirs (d # ds) acc s)) = trace s @ map RmSync (d # del)"
      using r(2) e by simp
    moreover have "existing (snd (removeDirs (d # ds) acc s)) =
                     existing s - (\<Union>x\<in>set (d # del). insert x (below s x))"
      using r(3) e by auto
    moreover have "set (d # del) \<subseteq> set (d # ds) \<inter> existing s"
      using r(4) True by auto
    moreover have "set (d # ds) \<inter> existing (snd (removeDirs (d # ds) acc s)) = {}"
      using r(3,5) e by auto
    ultimately show ?thesis by (intro exI [of _ "d # del"]) blast
  qed
qed

lemma removeDirs_nothing_there:
  "set ds \<inter> existing s = {} \<Longrightarrow> removeDirs ds acc s = (Some acc, s)"
  by (induction ds arbitrary: acc s) auto

lemma removeDirs_two:
  assumes "d1 \<notin> locked s" "d2 \<notin> locked s"
  shows "fst (removeDirs [d1, d2] [] s) =
           Some ((if d1 \<in> existing s then [d1] else []) @
                 (if d2 \<in> existing s \<and> \<not> (d1 \<in> existing s \<and> d2 \<in> insert d1 (below s d1))
                  then [d2] else []))"
  using assms by (auto simp: Let_def)

lemma authDirs_proj [simp]:
  "getAuthDirsForSession sid (s\<lparr>sessions := m\<rparr>) = getAuthDirsForSession sid s"
  "getAuthDirsForSession sid (effect e s) = getAuthDirsForSession sid s"
  "getAuthDirsForSession sid (deleteSession t s) = getAuthDirsForSession sid s"
  by (simp_all add: getAuthDirsForSession_def)

lemma authDirs_two:
  "getAuthDirsForSession sid s =
     [pathJoin s (pathJoin s (cwd s) ''.wwebjs_auth'') (''session-'' @ sid),
      pathJoin s (pathJoin s (cwd s) ''.wwebjs_auth'') sid]"
  by (simp add: getAuthDirsForSession_def Let_def)

text \<open>
  Claim C9. Deleting the credentials of a non-empty tenant id looks at two paths, what
  \<open>path.join\<close> makes of \<open>.wwebjs_auth/session-<id>\<close> and of the older
  \<open>.wwebjs_auth/<id>\<close> under the working directory. Provided the file system refuses
  none of the removals, the answer is CACHE_DELETED with the list of the paths removed:
  the first if it existed, and the second if it existed and had not already gone with the
  first. Each listed path existed and was removed with everything below it, nothing else
  was removed, and neither of the two paths exists afterwards. When neither exists to
  begin with, the answer is CACHE_DELETED with the empty list, nothing is removed and no
  error is reported.
\<close>

theorem delete_cache_removes_existing:
  assumes "sid \<noteq> []"
  shows "getAuthDirsForSession sid s =
           [pathJoin s (pathJoin s (cwd s) ''.wwebjs_auth'') (''session-'' @ sid),
            pathJoin s (pathJoin s (cwd s) ''.wwebjs_auth'') sid]
       \<and> (set (getAuthDirsForSession sid s) \<inter> locked s = {} \<longrightarrow>
            (\<exists>del. fst (delete_cache sid s) = Resp 200 (BDeleted CACHE_DELETED del)
               \<and> set del \<subseteq> set (getAuthDirsForSession sid s) \<inter> existing s
               \<and> trace (snd (delete_cache sid s)) = trace s @ map RmSync del
               \<and> existing (snd (delete_cache sid s)) =
                   existing s - (\<Union>d\<in>set del. insert d (below s d))
               \<and> set (getAuthDirsForSession sid s) \<inter> existing (snd (delete_cache sid s)) = {}
               \<and> (\<forall>d1 d2. getAuthDirsForSession sid s = [d1, d2] \<longrightarrow>
                    del = (if d1 \<in> existing s then [d1] else []) @
                          (if d2 \<in> existing s \<and>
                              \<not> (d1 \<in> existing s \<and> d2 \<in> insert d1 (below s d1))
                           then [d2] else []))))
       \<and> (set (getAuthDirsForSession sid s) \<inter> existing s = {} \<longrightarrow>
            fst (delete_cache sid s) = Resp 200 (BDeleted CACHE_DELETED [])
          \<and> existing (snd (delete_cache sid s)) = existing s
          \<and> trace (snd (delete_cache sid s)) = trace s)"
proof -
  let ?dirs = "getAuthDirsForSession sid s"
  have a: "set ?dirs \<inter> locked s = {} \<longrightarrow>
            (\<exists>del. fst (delete_cache sid s) = Resp 200 (BDeleted CACHE_DELETED del)
               \<and> set del \<subseteq> set ?dirs \<inter> existing s
               \<and> trace (snd (delete_cache sid s)) = trace s @ map RmSync del
               \<and> existing (snd (delete_cache sid s)) =
                   existing s - (\<Union>d\<in>set del. insert d (below s d))
               \<and> set ?dirs \<inter> existing (snd (delete_cache sid s)) = {}
               \<and> (\<forall>d1 d2. ?dirs = [d1, d2] \<longrightarrow>
                    del = (if d1 \<in> existing s then [d1] else []) @
                          (if d2 \<in> existing s \<and>
                              \<not> (d1 \<in> existing s \<and> d2 \<in> insert d1 (below s d1))
                           then [d2] else [])))"
  proof
    assume u: "set ?dirs \<inter> locked s = {}"
    obtain r s1 where p: "removeDirs ?dirs [] s = (r, s1)"
      by (cases "removeDirs ?dirs [] s")
    from removeDirs_unlocked [OF u, of "[]"] p obtain del where
      q: "r = Some del"
         "trace s1 = trace s @ map RmSync del"
         "existing s1 = existing s - (\<Union>d\<in>set del. insert d (below s d))"
         "set del \<subseteq> set ?dirs \<inter> existing s"
         "set ?dirs \<inter> existing s1 = {}"
      by auto
    have two: "\<forall>d1 d2. ?dirs = [d1, d2] \<longrightarrow>
                    del = (if d1 \<in> existing s then [d1] else []) @
                          (if d2 \<in> existing s \<and>
                              \<not> (d1 \<in> existing s \<and> d2 \<in> insert d1 (below s d1))
                           then [d2] else [])"
    proof (intro allI impI)
      fix d1 d2 assume eq: "?dirs = [d1, d2]"
      with u have "d1 \<notin> locked s" "d2 \<notin> locked s" by auto
      from removeDirs_two [OF this] p q(1) eq
      show "del = (if d1 \<in> existing s then [d1] else []) @
                  (if d2 \<in> existing s \<and> \<not> (d1 \<in> existing s \<and> d2 \<in> insert d1 (below s d1))
                   then [d2] else [])"
        by simp
    qed
    have "delete_cache sid s =
            (Resp 200 (BDeleted CACHE_DELETED del), log INFO ''Cache deleted'' (Some sid) s1)"
      unfolding delete_cache_def using assms p q(1) by (simp add: falsy_def)
    with q two show "\<exists>del. fst (delete_cache sid s) = Resp 200 (BDeleted CACHE_DELETED del)
               \<and> set del \<subseteq> set ?dirs \<inter> existing s
               \<and> trace (snd (delete_cache sid s)) = trace s @ map RmSync del
               \<and> existing (snd (delete_cache sid s)) =
                   existing s - (\<Union>d\<in>set del. insert d (below s d))
               \<and> set ?dirs \<inter> existing (snd (delete_cache sid s)) = {}
               \<and> (\<forall>d1 d2. ?dirs = [d1, d2] \<longrightarrow>
                    del = (if d1 \<in> existing s then [d1] else []) @
                          (if d2 \<in> existing s \<and>
                              \<not> (d1 \<in> existing s \<and> d2 \<in> insert d1 (below s d1))
                           then [d2] else []))"
      by (intro exI [of _ del]) simp
  qed
  have b: "set ?dirs \<inter> existing s = {} \<longrightarrow>
            fst (delete_cache sid s) = Resp 200 (BDeleted CACHE_DELETED [])
          \<and> existing (snd (delete_cache sid s)) = existing s
          \<and> trace (snd (delete_cache sid s)) = trace s"
  proof
    assume n: "set ?dirs \<inter> existing s = {}"
    have "delete_cache sid s =
            (Resp 200 (BDeleted CACHE_DELETED []), log INFO ''Cache deleted'' (Some sid) s)"
      unfolding delete_cache_def using assms removeDirs_nothing_there [OF n, of "[]"]
      by (simp add: falsy_def)
    then show "fst (delete_cache sid s) = Resp 200 (BDeleted CACHE_DELETED [])
          \<and> existing (snd (delete_cache sid s)) = existing s
          \<and> trace (snd (delete_cache sid s)) = trace s"
      by simp
  qed
  from a b authDirs_two [of sid s] show ?thesis by blast
qed

theorem delete_cache_removes_existing_witness:
  "''carol'' \<noteq> []
   \<and> set (getAuthDirsForSession ''carol'' srv) \<inter> locked srv = {}
   \<and> getAuthDirsForSession ''carol'' srv =
        [''/srv/.wwebjs_auth/session-carol'', ''/srv/.wwebjs_auth/carol'']
   \<and> fst (delete_cache ''carol'' srv) =
        Resp 200 (BDeleted CACHE_DELETED [''/srv/.wwebjs_auth/session-carol''])
   \<and> existing (snd (delete_cache ''carol'' srv)) = {}
   \<and> trace (snd (delete_cache ''carol'' srv)) = [RmSync ''/srv/.wwebjs_auth/session-carol'']
   \<and> set (getAuthDirsForSession ''bob'' srv) \<inter> existing srv = {}
   \<and> fst (delete_cache ''bob'' srv) = Resp 200 (BDeleted CACHE_DELETED [])
   \<and> existing (snd (delete_cache ''bob'' srv)) = existing srv"
proof -
  have n: "''carol'' \<noteq> []" "''bob'' \<noteq> []" by simp_all
  have a: "set (getAuthDirsForSession ''carol'' srv) \<inter> locked srv = {}"
    by (simp add: srv_fs)
  have b: "set (getAuthDirsForSession ''bob'' srv) \<inter> existing srv = {}"
    by (simp add: srv_fs authDirs_carol)
  from delete_cache_removes_existing [OF n(1), of srv, THEN conjunct2, THEN conjunct1] a
  obtain del where
    d: "fst (delete_cache ''carol'' srv) = Resp 200 (BDeleted CACHE_DELETED del)"
       "trace (snd (delete_cache ''carol'' srv)) = trace srv @ map RmSync del"
       "existing (snd (delete_cache ''carol'' srv)) =
          existing srv - (\<Union>d\<in>set del. insert d (below srv d))"
       "\<forall>d1 d2. getAuthDirsForSession ''carol'' srv = [d1, d2] \<longrightarrow>
            del = (if d1 \<in> existing srv then [d1] else []) @
                  (if d2 \<in> existing srv \<and> \<not> (d1 \<in> existing srv \<and> d2 \<in> insert d1 (below srv d1))
                   then [d2] else [])"
    by blast
  from d(4) have e: "del = [''/srv/.wwebjs_auth/session-carol'']"
    by (simp add: authDirs_carol srv_fs)
  from d(1-3) e
  have 1: "fst (delete_cache ''carol'' srv) =
        Resp 200 (BDeleted CACHE_DELETED [''/srv/.wwebjs_auth/session-carol''])"
    "existing (snd (delete_cache ''carol'' srv)) = {}"
    "trace (snd (delete_cache ''carol'' srv)) = [RmSync ''/srv/.wwebjs_auth/session-carol'']"
    by (simp_all add: srv_fs carol_profile_def)
  from delete_cache_removes_existing [OF n(2), of srv, THEN conjunct2, THEN conjunct2] b
  have 2: "fst (delete_cache ''bob'' srv) = Resp 200 (BDeleted CACHE_DELETED [])"
    "existing (snd (delete_cache ''bob'' srv)) = existing srv"
    by simp_all
  from n a b 1 2 authDirs_carol(1) show ?thesis by simp
qed

text \<open>Force reset, split at the point where the directory loop starts.\<close>

lemma force_logout_proj [simp]:
  "sessions (force_logout sid res s) = (sessions s)(sid := None)"
  "cwd (force_logout sid res s) = cwd s"
  "existing (force_logout sid res s) = existing s"
  "locked (force_logout sid res s) = locked s"
  "below (force_logout sid res s) = below s"
  "pathJoin (force_logout sid res s) = pathJoin s"
  "getAuthDirsForSession t (force_logout sid res s) = getAuthDirsForSession t s"
  by (auto simp: force_logout_def Let_def getAuthDirsForSession_def split: option.splits)

lemma force_logout_trace:
  "trace (force_logout sid res s) =
     trace s @ (case sessions s sid of
                  None \<Rightarrow> []
                | Some sess \<Rightarrow> [Logout (client sess), DeleteSession sid])"
  by (simp add: force_logout_def Let_def split: option.splits)

lemma force_reset_unfold:
  assumes "sid \<noteq> []"
    and "removeDirs (getAuthDirsForSession sid s) [] (force_logout sid res s) = (r, s2)"
  shows "force_reset sid res s =
           (case r of
              Some deleted \<Rightarrow>
                (Resp 200 (BDeleted FORCE_RESET_DONE deleted),
                 log INFO ''Force reset complete'' (Some sid) s2)
            | None \<Rightarrow>
                (Resp 500 (BError ''Force reset failed''),
                 log ERROR ''Force reset failed'' (Some sid) s2))"
  unfolding force_reset_def using assms by (simp add: falsy_def Let_def)

lemma force_reset_snd:
  assumes "sid \<noteq> []"
  shows "\<exists>l m. snd (force_reset sid res s) =
      log l m (Some sid)
        (snd (removeDirs (getAuthDirsForSession sid s) [] (force_logout sid res s)))"
proof -
  obtain r s2 where p: "removeDirs (getAuthDirsForSession sid s) [] (force_logout sid res s) = (r, s2)"
    by (cases "removeDirs (getAuthDirsForSession sid s) [] (force_logout sid res s)")
  show ?thesis
    unfolding force_reset_unfold [OF assms p] using p by (cases r) auto
qed

text \<open>
  Claim C8. Force reset of a non-empty tenant id whose client is live does three things in
  this order, as the trace shows: it calls the client's logout, whatever comes of it; it
  deletes the entry from the table; and only then it removes directories, each of them one
  of the tenant's two credential paths. The table has no entry for the tenant at the end.
  Provided the file system refuses none of the removals, the answer is FORCE_RESET_DONE
  with the list of the paths removed (the first if it existed, the second if it existed and
  had not gone with the first), and neither path exists afterwards.
\<close>

theorem force_reset_tears_down_first:
  assumes "sid \<noteq> []" and "sessions s sid = Some sess"
  shows "(\<exists>rms. trace (snd (force_reset sid res s)) =
                   trace s @ [Logout (client sess), DeleteSession sid] @ map RmSync rms
                 \<and> set rms \<subseteq> set (getAuthDirsForSession sid s))
       \<and> sessions (snd (force_reset sid res s)) = (sessions s)(sid := None)
       \<and> (set (getAuthDirsForSession sid s) \<inter> locked s = {} \<longrightarrow>
            (\<exists>del. fst (force_reset sid res s) = Resp 200 (BDeleted FORCE_RESET_DONE del)
               \<and> trace (snd (force_reset sid res s)) =
                   trace s @ [Logout (client sess), DeleteSession sid] @ map RmSync del
               \<and> set del \<subseteq> set (getAuthDirsForSession sid s) \<inter> existing s
               \<and> existing (snd (force_reset sid res s)) =
                   existing s - (\<Union>d\<in>set del. insert d (below s d))
               \<and> set (getAuthDirsForSession sid s) \<inter> existing (snd (force_reset sid res s)) = {}
               \<and> (\<forall>d1 d2. getAuthDirsForSession sid s = [d1, d2] \<longrightarrow>
                    del = (if d1 \<in> existing s then [d1] else []) @
                          (if d2 \<in> existing s \<and>
                              \<not> (d1 \<in> existing s \<and> d2 \<in> insert d1 (below s d1))
                           then [d2] else []))))"
proof -
  let ?mid = "force_logout sid res s"
  let ?dirs = "getAuthDirsForSession sid s"
  have m: "trace ?mid = trace s @ [Logout (client sess), DeleteSession sid]"
    using assms(2) by (simp add: force_logout_trace)
  from force_reset_snd [OF assms(1), of res s] obtain l m where
    e: "snd (force_reset sid res s) = log l m (Some sid) (snd (removeDirs ?dirs [] ?mid))"
    by blast
  from removeDirs_trace [of ?dirs "[]" ?mid] obtain rms where
    r: "trace (snd (removeDirs ?dirs [] ?mid)) = trace ?mid @ map RmSync rms" "set rms \<subseteq> set ?dirs"
    by blast
  have t: "\<exists>rms. trace (snd (force_reset sid res s)) =
                   trace s @ [Logout (client sess), DeleteSession sid] @ map RmSync rms
                \<and> set rms \<subseteq> set ?dirs"
    using e r m by (intro exI [of _ rms]) simp
  have u: "set ?dirs \<inter> locked s = {} \<longrightarrow>
            (\<exists>del. fst (force_reset sid res s) = Resp 200 (BDeleted FORCE_RESET_DONE del)
               \<and> trace (snd (force_reset sid res s)) =
                   trace s @ [Logout (client sess), DeleteSession sid] @ map RmSync del
               \<and> set del \<subseteq> set ?dirs \<inter> existing s
               \<and> existing (snd (force_reset sid res s)) =
                   existing s - (\<Union>d\<in>set del. insert d (below s d))
               \<and> set ?dirs \<inter> existing (snd (force_reset sid res s)) = {}
               \<and> (\<forall>d1 d2. ?dirs = [d1, d2] \<longrightarrow>
                    del = (if d1 \<in> existing s then [d1] else []) @
                          (if d2 \<in> existing s \<and>
                              \<not> (d1 \<in> existing s \<and> d2 \<in> insert d1 (below s d1))
                           then [d2] else [])))"
  proof
    assume ul: "set ?dirs \<inter> locked s = {}"
    then have "set ?dirs \<inter> locked ?mid = {}" by simp
    from removeDirs_unlocked [OF this, of "[]"] obtain del where
      q: "fst (removeDirs ?dirs [] ?mid) = Some del"
         "trace (snd (removeDirs ?dirs [] ?mid)) = trace ?mid @ map RmSync del"
         "existing (snd (removeDirs ?dirs [] ?mid)) =
            existing s - (\<Union>d\<in>set del. insert d (below s d))"
         "set del \<subseteq> set ?dirs \<inter> existing s"
         "set ?dirs \<inter> existing (snd (removeDirs ?dirs [] ?mid)) = {}"
      by auto
    obtain r s2 where p: "removeDirs ?dirs [] ?mid = (r, s2)"
      by (cases "removeDirs ?dirs [] ?mid")
    have two: "\<forall>d1 d2. ?dirs = [d1, d2] \<longrightarrow>
                    del = (if d1 \<in> existing s then [d1] else []) @
                          (if d2 \<in> existing s \<and>
                              \<not> (d1 \<in> existing s \<and> d2 \<in> insert d1 (below s d1))
                           then [d2] else [])"
    proof (intro allI impI)
      fix d1 d2 assume eq: "?dirs = [d1, d2]"
      with ul have "d1 \<notin> locked ?mid" "d2 \<notin> locked ?mid" by auto
      from removeDirs_two [OF this] q(1) eq
      show "del = (if d1 \<in> existing s then [d1] else []) @
                  (if d2 \<in> existing s \<and> \<not> (d1 \<in> existing s \<and> d2 \<in> insert d1 (below s d1))
                   then [d2] else [])"
        by simp
    qed
    from q p m two show "\<exists>del. fst (force_reset sid res s) = Resp 200 (BDeleted FORCE_RESET_DONE del)
               \<and> trace (snd (force_reset sid res s)) =
                   trace s @ [Logout (client sess), DeleteSession sid] @ map RmSync del
               \<and> set del \<subseteq> set ?dirs \<inter> existing s
               \<and> existing (snd (force_reset sid res s)) =
                   existing s - (\<Union>d\<in>set del. insert d (below s d))
               \<and> set ?dirs \<inter> existing (snd (force_reset sid res s)) = {}
               \<and> (\<forall>d1 d2. ?dirs = [d1, d2] \<longrightarrow>
                    del = (if d1 \<in> existing s then [d1] else []) @
                          (if d2 \<in> existing s \<and>
                              \<not> (d1 \<in> existing s \<and> d2 \<in> insert d1 (below s d1))
                           then [d2] else []))"
      unfolding force_reset_unfold [OF assms(1) p] by (intro exI [of _ del]) simp
  qed
  from t u e show ?thesis by simp
qed

theorem force_reset_tears_down_first_witness:
  "''carol'' \<noteq> []
   \<and> sessions carol_live ''carol'' = Some \<lparr>client = 1, ready = False, qrDataUrl = None\<rparr>
   \<and> set (getAuthDirsForSession ''carol'' carol_live) \<inter> locked carol_live = {}
   \<and> fst (force_reset ''carol'' Rejected carol_live) =
        Resp 200 (BDeleted FORCE_RESET_DONE [''/srv/.wwebjs_auth/session-carol''])
   \<and> trace (snd (force_reset ''carol'' Rejected carol_live)) =
        trace carol_live @
          [Logout 1, DeleteSession ''carol'', RmSync ''/srv/.wwebjs_auth/session-carol'']
   \<and> existing (snd (force_reset ''carol'' Rejected carol_live)) = {}
   \<and> sessions (snd (force_reset ''carol'' Rejected carol_live)) ''carol'' = None"
proof -
  have n: "''carol'' \<noteq> []" by simp
  have a: "sessions carol_live ''carol'' = Some \<lparr>client = 1, ready = False, qrDataUrl = None\<rparr>"
    by (simp add: carol_live_sessions)
  have b: "set (getAuthDirsForSession ''carol'' carol_live) \<inter> locked carol_live = {}"
    by (simp add: carol_live_fs)
  note F = force_reset_tears_down_first [OF n a, of Rejected]
  from F [THEN conjunct2, THEN conjunct2] b obtain del where
    d: "fst (force_reset ''carol'' Rejected carol_live) = Resp 200 (BDeleted FORCE_RESET_DONE del)"
       "trace (snd (force_reset ''carol'' Rejected carol_live)) =
          trace carol_live @ [Logout 1, DeleteSession ''carol''] @ map RmSync del"
       "existing (snd (force_reset ''carol'' Rejected carol_live)) =
          existing carol_live - (\<Union>d\<in>set del. insert d (below carol_live d))"
       "\<forall>d1 d2. getAuthDirsForSession ''carol'' carol_live = [d1, d2] \<longrightarrow>
            del = (if d1 \<in> existing carol_live then [d1] else []) @
                  (if d2 \<in> existing carol_live \<and>
                      \<not> (d1 \<in> existing carol_live \<and> d2 \<in> insert d1 (below carol_live d1))
                   then [d2] else [])"
    by auto
  from d(4) have e: "del = [''/srv/.wwebjs_auth/session-carol'']"
    by (simp add: authDirs_carol carol_live_fs)
  from d(1-3) e
  have 1: "fst (force_reset ''carol'' Rejected carol_live) =
        Resp 200 (BDeleted FORCE_RESET_DONE [''/srv/.wwebjs_auth/session-carol''])"
    "trace (snd (force_reset ''carol'' Rejected carol_live)) =
        trace carol_live @
          [Logout 1, DeleteSession ''carol'', RmSync ''/srv/.wwebjs_auth/session-carol'']"
    "existing (snd (force_reset ''carol'' Rejected carol_live)) = {}"
    by (simp_all add: carol_live_fs carol_profile_def)
  from F [THEN conjunct2, THEN conjunct1]
  have 3: "sessions (snd (force_reset ''carol'' Rejected carol_live)) ''carol'' = None"
    by simp
  from n a b 1 3 show ?thesis by simp
qed

section \<open>Other tenants are left alone\<close>

lemma ensureConnected_frame:
  "t \<noteq> sid \<Longrightarrow> sessions (snd (ensureConnected sid probe s)) t = sessions s t"
  by (simp add: ensureConnected_def Let_def split: option.splits outcome.splits)

lemma ensureConnected_trace:
  "trace (snd (ensureConnected sid probe s)) =
     trace s @ (case sessions s sid of None \<Rightarrow> [] | Some sess \<Rightarrow> [GetState (client sess)])"
  by (simp add: ensureConnected_def Let_def split: option.splits outcome.splits)

lemma start_session_frame:
  "t \<noteq> sid \<Longrightarrow> sessions (snd (start_session sid s)) t = sessions s t"
  by (auto simp: start_session_def createSession_def Let_def split: found.splits option.splits)

lemma session_status_frame:
  assumes "t \<noteq> sid"
  shows "sessions (snd (session_status sid probe s)) t = sessions s t"
proof -
  obtain st s1 where p: "ensureConnected sid probe s = (st, s1)"
    by (cases "ensureConnected sid probe s")
  with ensureConnected_frame [OF assms, of probe s] have "sessions s1 t = sessions s t" by simp
  with p show ?thesis
    by (simp add: session_status_def split: found.splits)
qed

lemma send_message_frame:
  assumes "t \<noteq> sid"
  shows "sessions (snd (send_message sid number message probe sent s)) t = sessions s t"
proof -
  obtain st s1 where p: "ensureConnected sid probe s = (st, s1)"
    by (cases "ensureConnected sid probe s")
  with ensureConnected_frame [OF assms, of probe s] have "sessions s1 t = sessions s t" by simp
  with p show ?thesis
    by (simp add: send_message_def Let_def split: found.splits outcome.splits)
qed

lemma send_media_failed_proj [simp]:
  "sessions (snd (send_media_failed sid file s)) = sessions s"
  "trace (snd (send_media_failed sid file s)) = trace s @ [UnlinkSync (path file)]"
  by (simp_all add: send_media_failed_def)

lemma send_media_frame:
  assumes "t \<noteq> sid"
  shows "sessions (snd (send_media sid number caption upl probe io s)) t = sessions s t"
proof -
  obtain st s1 where p: "ensureConnected sid probe s = (st, s1)"
    by (cases "ensureConnected sid probe s")
  with ensureConnected_frame [OF assms, of probe s] have "sessions s1 t = sessions s t" by simp
  with p show ?thesis
    by (simp add: send_media_def Let_def split: option.splits found.splits outcome.splits)
qed

lemma logout_session_frame:
  "t \<noteq> sid \<Longrightarrow> sessions (snd (logout_session sid res s)) t = sessions s t"
  by (simp add: logout_session_def Let_def split: found.splits)

lemma delete_cache_sessions: "sessions (snd (delete_cache sid s)) = sessions s"
proof -
  obtain r s1 where p: "removeDirs (getAuthDirsForSession sid s) [] s = (r, s1)"
    by (cases "removeDirs (getAuthDirsForSession sid s) [] s")
  then have "sessions s1 = sessions s"
    using removeDirs_sessions [of "getAuthDirsForSession sid s" "[]" s] by simp
  with p show ?thesis
    by (simp add: delete_cache_def split: option.splits)
qed

lemma force_reset_sessions:
  "sessions (snd (force_reset sid res s)) = (if sid = [] then sessions s else (sessions s)(sid := None))"
proof (cases "sid = []")
  case True
  then show ?thesis by (simp add: force_reset_def falsy_def)
next
  case False
  from force_reset_snd [OF False, of res s] show ?thesis using False by auto
qed

text \<open>
  Claim C10. Each caller-facing operation (start, status query, send text, send media,
  logout, delete credentials, force reset) invoked with tenant id \<open>tenant op\<close> leaves the
  table entry of every other tenant id as it was: its client handle, its \<open>ready\<close> flag and
  its stored QR payload.
\<close>

theorem perform_frame:
  assumes "t \<noteq> tenant op"
  shows "sessions (snd (perform op s)) t = sessions s t"
proof (cases op)
  case (Start sid)
  with assms show ?thesis by (simp add: start_session_frame)
next
  case (QueryStatus sid probe)
  with assms show ?thesis by (simp add: session_status_frame)
next
  case (SendText sid number message probe sent)
  with assms show ?thesis by (simp add: send_message_frame)
next
  case (SendMedia sid number caption upl probe io)
  with assms show ?thesis by (simp add: send_media_frame)
next
  case (LogoutOp sid res)
  with assms show ?thesis by (simp add: logout_session_frame)
next
  case (DeleteCredentials sid)
  with assms show ?thesis by (simp add: delete_cache_sessions)
next
  case (ForceReset sid res)
  with assms show ?thesis by (simp add: force_reset_sessions)
qed

theorem perform_frame_witness:
  "''alice'' \<noteq> tenant (ForceReset ''carol'' Rejected)
   \<and> sessions (snd (perform (ForceReset ''carol'' Rejected) carol_live)) ''alice'' =
        Some \<lparr>client = 0, ready = False, qrDataUrl = None\<rparr>
   \<and> ''alice'' \<noteq> tenant (QueryStatus ''carol'' (Resolved ''CONNECTED''))
   \<and> sessions (snd (perform (QueryStatus ''carol'' (Resolved ''CONNECTED'')) carol_live)) ''alice'' =
        Some \<lparr>client = 0, ready = False, qrDataUrl = None\<rparr>"
proof -
  have a: "''alice'' \<noteq> tenant (ForceReset ''carol'' Rejected)"
    "''alice'' \<noteq> tenant (QueryStatus ''carol'' (Resolved ''CONNECTED''))"
    by simp_all
  have b: "sessions carol_live ''alice'' = Some \<lparr>client = 0, ready = False, qrDataUrl = None\<rparr>"
    by (simp add: carol_live_sessions)
  from perform_frame [OF a(1), of carol_live] perform_frame [OF a(2), of carol_live] a b
  show ?thesis by simp
qed

section \<open>The environment is left alone\<close>

text \<open>Working directory, \<open>path.join\<close>, what lies below a path and what is locked stay
  the same through every request and every event.\<close>

lemma same_env_refl [simp]: "same_env s s"
  by (simp add: same_env_def)

lemma same_env_simps [simp]:
  "same_env s (log l m sid s') = same_env s s'"
  "same_env s (effect e s') = same_env s s'"
  "same_env s (emitTo r ev s') = same_env s s'"
  "same_env s (deleteSession t s') = same_env s s'"
  "same_env s (s'\<lparr>sessions := x\<rparr>) = same_env s s'"
  "same_env s (s'\<lparr>existing := y\<rparr>) = same_env s s'"
  "same_env s (s'\<lparr>nextHandle := z\<rparr>) = same_env s s'"
  by (simp_all add: same_env_def)

lemma ensureConnected_env: "same_env s (snd (ensureConnected sid probe s))"
  by (simp add: ensureConnected_def Let_def split: option.splits outcome.splits)

lemma removeDirs_dirname [simp]: "dirname (snd (removeDirs ds acc s)) = dirname s"
  by (induction ds arbitrary: acc s) (simp_all add: Let_def)

lemma removeDirs_env: "same_env s (snd (removeDirs ds acc s))"
  by (simp add: same_env_def)

lemma force_logout_env: "same_env s (force_logout sid res s)"
  by (simp add: force_logout_def Let_def split: option.splits)

lemma perform_env: "same_env s (snd (perform op s))"
proof (cases op)
  case (Start sid)
  then show ?thesis
    by (auto simp: start_session_def createSession_def Let_def split: found.splits)
next
  case (QueryStatus sid probe)
  obtain st s1 where p: "ensureConnected sid probe s = (st, s1)"
    by (cases "ensureConnected sid probe s")
  with ensureConnected_env [of s sid probe] QueryStatus show ?thesis
    by (simp add: session_status_def split: found.splits)
next
  case (SendText sid number message probe sent)
  obtain st s1 where p: "ensureConnected sid probe s = (st, s1)"
    by (cases "ensureConnected sid probe s")
  with ensureConnected_env [of s sid probe] SendText show ?thesis
    by (simp add: send_message_def Let_def split: found.splits outcome.splits)
next
  case (SendMedia sid number caption upl probe io)
  obtain st s1 where p: "ensureConnected sid probe s = (st, s1)"
    by (cases "ensureConnected sid probe s")
  with ensureConnected_env [of s sid probe] SendMedia show ?thesis
    by (simp add: send_media_def send_media_failed_def Let_def
             split: option.splits found.splits outcome.splits)
next
  case (LogoutOp sid res)
  then show ?thesis
    by (simp add: logout_session_def Let_def split: found.splits)
next
  case (DeleteCredentials sid)
  obtain r s1 where p: "removeDirs (getAuthDirsForSession sid s) [] s = (r, s1)"
    by (cases "removeDirs (getAuthDirsForSession sid s) [] s")
  with removeDirs_env [of s "getAuthDirsForSession sid s" "[]"] DeleteCredentials show ?thesis
    by (simp add: delete_cache_def split: option.splits)
next
  case (ForceReset sid res)
  show ?thesis
  proof (cases "sid = []")
    case True
    with ForceReset show ?thesis by (simp add: force_reset_def falsy_def)
  next
    case False
    from force_reset_snd [OF False, of res s] obtain l m where
      "snd (force_reset sid res s) =
         log l m (Some sid)
           (snd (removeDirs (getAuthDirsForSession sid s) [] (force_logout sid res s)))"
      by blast
    with ForceReset force_logout_env [of s sid res] show ?thesis by (simp add: same_env_def)
  qed
qed

lemma step_env: "same_env s (step a s)"
proof (cases a)
  case (Request op)
  with perform_env [of s op] show ?thesis by simp
next
  case (Join sock sid)
  then show ?thesis by (simp add: join_session_def Let_def split: option.splits)
next
  case (QrEvent sid dataUrl)
  then show ?thesis by (simp add: on_qr_def Let_def split: outcome.splits option.splits)
next
  case (AuthenticatedEvent sid)
  then show ?thesis by (simp add: on_authenticated_def)
next
  case (ReadyEvent sid)
  then show ?thesis by (simp add: on_ready_def Let_def split: option.splits)
next
  case (AuthFailureEvent sid m)
  then show ?thesis by (simp add: on_auth_failure_def Let_def split: option.splits)
next
  case (DisconnectedEvent sid why)
  then show ?thesis by (simp add: on_disconnected_def Let_def)
qed

lemma run_env: "same_env s (run acts s)"
proof (induction acts arbitrary: s)
  case Nil
  show ?case by simp
next
  case (Cons a acts)
  from Cons.IH [of "step a s"] step_env [of s a] show ?case
    by (simp add: same_env_def)
qed

section \<open>When the QR payload is stored\<close>

text \<open>Each handler, seen from one tenant: it is quiet, or it leaves no payload stored, or
  it tells the room a status under which a payload may be stored.\<close>

lemma ensureConnected_quiet: "quiet t s (snd (ensureConnected sid probe s))"
  by (simp add: quiet_def stored_artifact_def ensureConnected_def Let_def broadcasts_append
           split: option.splits outcome.splits)

lemma start_session_quiet: "quiet t s (snd (start_session sid s))"
proof (cases "falsy sid")
  case True
  then show ?thesis by (simp add: start_session_def quiet_def)
next
  case False
  show ?thesis
  proof (cases s sid rule: lookup_cases)
    case Missing
    show ?thesis
    proof (cases "createSession sid s")
      case None
      with Missing False show ?thesis by (simp add: start_session_def quiet_def)
    next
      case (Some s1)
      with Missing False have "snd (start_session sid s) = s1"
        by (simp add: start_session_def)
      with createSession_Some(1,3) [OF Some] Missing(2) show ?thesis
        by (simp add: quiet_def stored_artifact_def broadcasts_append)
    qed
  next
    case Inherited
    with False show ?thesis by (simp add: start_session_def quiet_def)
  next
    case (Own e)
    with False show ?thesis by (simp add: start_session_def quiet_def)
  qed
qed

lemma quiet_after_probe:
  assumes "ensureConnected sid probe s = (st, s1)"
    and "stored_artifact t s2 = stored_artifact t s1"
    and "broadcasts t (trace s2) = broadcasts t (trace s1)"
  shows "quiet t s s2"
  using ensureConnected_quiet [of t s sid probe] assms by (simp add: quiet_def)

lemma session_status_quiet: "quiet t s (snd (session_status sid probe s))"
proof -
  obtain st s1 where p: "ensureConnected sid probe s = (st, s1)"
    by (cases "ensureConnected sid probe s")
  have "snd (session_status sid probe s) = s \<or> snd (session_status sid probe s) = s1"
    using p by (simp add: session_status_def split: found.splits)
  with quiet_after_probe [OF p, of t s1] show ?thesis by (auto simp: quiet_def)
qed

lemma send_message_quiet: "quiet t s (snd (send_message sid number message probe sent s))"
proof -
  obtain st s1 where p: "ensureConnected sid probe s = (st, s1)"
    by (cases "ensureConnected sid probe s")
  let ?s2 = "snd (send_message sid number message probe sent s)"
  show ?thesis
  proof (cases "(falsy sid \<or> falsy number \<or> falsy message) \<or> lookup s sid = Missing")
    case True
    then have "?s2 = s" by (auto simp: send_message_def)
    then show ?thesis by (simp add: quiet_def)
  next
    case False
    with p have "stored_artifact t ?s2 = stored_artifact t s1"
      "broadcasts t (trace ?s2) = broadcasts t (trace s1)"
      by (auto simp: send_message_def Let_def stored_artifact_def broadcasts_append
               split: outcome.splits found.splits)
    with quiet_after_probe [OF p] show ?thesis by simp
  qed
qed

lemma send_media_quiet: "quiet t s (snd (send_media sid number caption upl probe io s))"
proof -
  obtain st s1 where p: "ensureConnected sid probe s = (st, s1)"
    by (cases "ensureConnected sid probe s")
  let ?s2 = "snd (send_media sid number caption upl probe io s)"
  show ?thesis
  proof (cases "(if falsy sid \<or> falsy number then None else upl) = None \<or> lookup s sid = Missing")
    case True
    then have "?s2 = s" by (auto simp: send_media_def split: option.splits)
    then show ?thesis by (simp add: quiet_def)
  next
    case False
    with p have "stored_artifact t ?s2 = stored_artifact t s1"
      "broadcasts t (trace ?s2) = broadcasts t (trace s1)"
      by (auto simp: send_media_def Let_def stored_artifact_def broadcasts_append
               split: outcome.splits found.splits)
    with quiet_after_probe [OF p] show ?thesis by simp
  qed
qed

lemma logout_session_quiet:
  "quiet t s (snd (logout_session sid res s)) \<or> stored_artifact t (snd (logout_session sid res s)) = None"
  by (cases s sid rule: lookup_cases)
     (simp_all add: quiet_def stored_artifact_def logout_session_def Let_def broadcasts_append)

lemma removeDirs_broadcasts [simp]:
  "broadcasts t (trace (snd (removeDirs ds acc s))) = broadcasts t (trace s)"
proof -
  from removeDirs_trace [of ds acc s] obtain rms where
    "trace (snd (removeDirs ds acc s)) = trace s @ map RmSync rms" by blast
  moreover have "broadcasts t (map RmSync rms) = []" by (induction rms) simp_all
  ultimately show ?thesis by (simp add: broadcasts_append)
qed

lemma delete_cache_quiet: "quiet t s (snd (delete_cache sid s))"
proof -
  obtain r s1 where p: "removeDirs (getAuthDirsForSession sid s) [] s = (r, s1)"
    by (cases "removeDirs (getAuthDirsForSession sid s) [] s")
  with removeDirs_broadcasts [of t "getAuthDirsForSession sid s" "[]" s]
  have "broadcasts t (trace s1) = broadcasts t (trace s)" by simp
  with p have "broadcasts t (trace (snd (delete_cache sid s))) = broadcasts t (trace s)"
    by (simp add: delete_cache_def split: option.splits)
  then show ?thesis by (simp add: quiet_def stored_artifact_def delete_cache_sessions)
qed

lemma force_reset_quiet:
  "quiet t s (snd (force_reset sid res s)) \<or> stored_artifact t (snd (force_reset sid res s)) = None"
proof (cases "sid = []")
  case True
  then show ?thesis by (simp add: force_reset_def falsy_def quiet_def)
next
  case False
  from force_reset_snd [OF False, of res s] obtain l m where
    e: "snd (force_reset sid res s) =
          log l m (Some sid)
            (snd (removeDirs (getAuthDirsForSession sid s) [] (force_logout sid res s)))"
    by blast
  have "broadcasts t (trace (force_logout sid res s)) = broadcasts t (trace s)"
    by (simp add: force_logout_trace broadcasts_append split: option.splits)
  with e have "broadcasts t (trace (snd (force_reset sid res s))) = broadcasts t (trace s)"
    by simp
  then show ?thesis
    by (simp add: quiet_def stored_artifact_def force_reset_sessions False)
qed

lemma perform_quiet:
  "quiet t s (snd (perform op s)) \<or> stored_artifact t (snd (perform op s)) = None"
proof (cases op)
  case (Start sid)
  then show ?thesis by (simp add: start_session_quiet)
next
  case (QueryStatus sid probe)
  then show ?thesis by (simp add: session_status_quiet)
next
  case (SendText sid number message probe sent)
  then show ?thesis by (simp add: send_message_quiet)
next
  case (SendMedia sid number caption upl probe io)
  then show ?thesis by (simp add: send_media_quiet)
next
  case (LogoutOp sid res)
  then show ?thesis by (simp add: logout_session_quiet)
next
  case (DeleteCredentials sid)
  then show ?thesis by (simp add: delete_cache_quiet)
next
  case (ForceReset sid res)
  then show ?thesis by (simp add: force_reset_quiet)
qed

lemma join_session_quiet: "quiet t s (join_session sock sid s)"
  by (simp add: quiet_def stored_artifact_def join_session_def Let_def broadcasts_append
           split: option.splits)

lemma on_qr_cases:
  "quiet t s (on_qr sid dataUrl s) \<or> last_status t (on_qr sid dataUrl s) = Some WAITING_QR"
  by (simp add: quiet_def stored_artifact_def on_qr_def Let_def broadcasts_append last_status_def
           split: option.splits outcome.splits)

lemma on_authenticated_cases:
  "quiet t s (on_authenticated sid s) \<or> last_status t (on_authenticated sid s) = Some AUTHENTICATED"
  by (simp add: quiet_def stored_artifact_def on_authenticated_def broadcasts_append last_status_def)

lemma on_ready_cases:
  "on_ready sid s = Some s1 \<Longrightarrow> quiet t s s1 \<or> stored_artifact t s1 = None"
  by (auto simp: quiet_def stored_artifact_def on_ready_def Let_def broadcasts_append
           split: option.splits if_splits)

lemma on_auth_failure_cases:
  "on_auth_failure sid m s = Some s1 \<Longrightarrow> quiet t s s1 \<or> last_status t s1 = Some AUTH_FAILURE"
  by (auto simp: quiet_def stored_artifact_def on_auth_failure_def Let_def broadcasts_append
                 last_status_def split: option.splits if_splits)

lemma on_disconnected_cases:
  "quiet t s (on_disconnected sid why s) \<or> stored_artifact t (on_disconnected sid why s) = None"
  by (simp add: quiet_def stored_artifact_def on_disconnected_def Let_def broadcasts_append)

lemma step_cases:
  "quiet t s (step a s) \<or> stored_artifact t (step a s) = None \<or> last_status t (step a s) \<in> told"
proof (cases a)
  case (Request op)
  with perform_quiet [of t s op] show ?thesis by auto
next
  case (Join sock sid)
  then show ?thesis by (simp add: join_session_quiet)
next
  case (QrEvent sid dataUrl)
  with on_qr_cases [of t s sid dataUrl] show ?thesis by (auto simp: told_def)
next
  case (AuthenticatedEvent sid)
  with on_authenticated_cases [of t s sid] show ?thesis by (auto simp: told_def)
next
  case (ReadyEvent sid)
  show ?thesis
  proof (cases "on_ready sid s")
    case None
    with ReadyEvent show ?thesis by (simp add: quiet_def)
  next
    case (Some s1)
    with ReadyEvent on_ready_cases [OF Some, of t] show ?thesis by auto
  qed
next
  case (AuthFailureEvent sid m)
  show ?thesis
  proof (cases "on_auth_failure sid m s")
    case None
    with AuthFailureEvent show ?thesis by (simp add: quiet_def)
  next
    case (Some s1)
    with AuthFailureEvent on_auth_failure_cases [OF Some, of t] show ?thesis
      by (auto simp: told_def)
  qed
next
  case (DisconnectedEvent sid why)
  with on_disconnected_cases [of t s sid why] show ?thesis by auto
qed

lemma step_artifact_told: "artifact_told s \<Longrightarrow> artifact_told (step a s)"
  unfolding artifact_told_def
proof (intro allI impI)
  fix t
  assume inv: "\<forall>t. stored_artifact t s \<noteq> None \<longrightarrow> last_status t s \<in> told"
    and st: "stored_artifact t (step a s) \<noteq> None"
  from step_cases [of t s a] st
  consider "quiet t s (step a s)" | "last_status t (step a s) \<in> told" by blast
  then show "last_status t (step a s) \<in> told"
  proof cases
    case 1
    then have "stored_artifact t s = stored_artifact t (step a s)"
      and "last_status t (step a s) = last_status t s"
      by (simp_all add: quiet_def last_status_def)
    with st inv show ?thesis by metis
  next
    case 2
    then show ?thesis .
  qed
qed

lemma run_artifact_told: "artifact_told s \<Longrightarrow> artifact_told (run acts s)"
  by (induction acts arbitrary: s) (simp_all add: step_artifact_told)

lemma initial_artifact_told: "artifact_told (initial c d ex lk pj bl)"
  by (simp add: artifact_told_def stored_artifact_def initial_def)

text \<open>
  Claim C2, as the code has it. In every state the server reaches from start-up, a QR
  payload is stored for a tenant only while the status last broadcast to the tenant's room
  is WAITING_QR, AUTHENTICATED or AUTH_FAILURE. The authenticated event leaves the table,
  and with it the payload, as it was; the ready event, which broadcasts LOGGED_IN, is what
  clears the payload.
\<close>

theorem artifact_cleared_by_ready_only:
  "(\<forall>e url. sessions (run acts (initial c d ex lk pj bl)) t = Some e \<and> qrDataUrl e = Some url \<longrightarrow>
       last_status t (run acts (initial c d ex lk pj bl))
         \<in> {Some WAITING_QR, Some AUTHENTICATED, Some AUTH_FAILURE})
   \<and> sessions (on_authenticated t s) = sessions s
   \<and> (\<forall>s1. on_ready t s = Some s1 \<longrightarrow> stored_artifact t s1 = None)"
proof -
  have "artifact_told (run acts (initial c d ex lk pj bl))"
    by (rule run_artifact_told [OF initial_artifact_told])
  then have "\<forall>e url. sessions (run acts (initial c d ex lk pj bl)) t = Some e \<and> qrDataUrl e = Some url \<longrightarrow>
       last_status t (run acts (initial c d ex lk pj bl)) \<in> told"
    by (auto simp: artifact_told_def stored_artifact_def)
  moreover have "sessions (on_authenticated t s) = sessions s"
    by (simp add: on_authenticated_def)
  moreover have "\<forall>s1. on_ready t s = Some s1 \<longrightarrow> stored_artifact t s1 = None"
    by (auto simp: on_ready_def stored_artifact_def Let_def split: option.splits)
  ultimately show ?thesis by (simp add: told_def)
qed

theorem artifact_cleared_by_ready_only_witness:
  "sessions alice_authenticated ''alice'' =
     Some \<lparr>client = 0, ready = False, qrDataUrl = Some ''data:image/png;base64,XYZ''\<rparr>
   \<and> last_status ''alice'' alice_authenticated
        \<in> {Some WAITING_QR, Some AUTHENTICATED, Some AUTH_FAILURE}
   \<and> (\<exists>s1. on_ready ''alice'' alice_authenticated = Some s1 \<and> stored_artifact ''alice'' s1 = None)"
proof -
  have a: "sessions alice_authenticated ''alice'' =
     Some \<lparr>client = 0, ready = False, qrDataUrl = Some ''data:image/png;base64,XYZ''\<rparr>"
    by (simp add: alice_authenticated_sessions)
  have r: "\<exists>s1. on_ready ''alice'' alice_authenticated = Some s1"
    using a by (simp add: on_ready_def Let_def)
  note T = artifact_cleared_by_ready_only
    [of "[Request (Start ''alice''), QrEvent ''alice'' (Resolved ''data:image/png;base64,XYZ''),
          AuthenticatedEvent ''alice'']" "''/srv''" "''/srv/backend''"
        "{''/srv/.wwebjs_auth/session-carol'', ''/srv/.wwebjs_auth/session-carol/Default''}" "{}"
        slash_join carol_profile "''alice''" alice_authenticated,
     folded srv_def, folded alice_authenticated_def]
  from T [THEN conjunct1, rule_format,
          of "\<lparr>client = 0, ready = False, qrDataUrl = Some ''data:image/png;base64,XYZ''\<rparr>"
             "''data:image/png;base64,XYZ''"] a
  have 1: "last_status ''alice'' alice_authenticated
        \<in> {Some WAITING_QR, Some AUTHENTICATED, Some AUTH_FAILURE}"
    by simp
  from T [THEN conjunct2, THEN conjunct2] r
  have 2: "\<exists>s1. on_ready ''alice'' alice_authenticated = Some s1 \<and> stored_artifact ''alice'' s1 = None"
    by blast
  from a 1 2 show ?thesis by simp
qed

text \<open>
  Claim C2 as stated fails: after start, a QR event and the authenticated event, the room
  of alice has been told AUTHENTICATED, which is past WAITING_QR, and the payload is still
  stored.
\<close>

theorem artifact_still_stored_when_authenticated:
  "last_status ''alice'' alice_authenticated = Some AUTHENTICATED
   \<and> stored_artifact ''alice'' alice_authenticated = Some ''data:image/png;base64,XYZ''
   \<and> last_status ''alice'' alice_authenticated \<noteq> Some WAITING_QR"
  by (simp add: last_status_def stored_artifact_def alice_authenticated_trace
                alice_authenticated_sessions)

section \<open>Probing before sending\<close>

text \<open>
  The handlers of the first copy ask the client for its state before anything else, and
  send nothing unless the answer is CONNECTED, whatever the \<open>ready\<close> flag says.
\<close>

lemma send_message_probes_first:
  assumes "sid \<noteq> []" "number \<noteq> []" "message \<noteq> []" "sessions s sid = Some sess"
  shows "\<exists>es. trace (snd (send_message sid number message probe sent s)) =
                 trace s @ GetState (client sess) # es"
    and "probe \<noteq> Resolved ''CONNECTED'' \<Longrightarrow>
           send_message sid number message probe sent s =
             (Resp 400 (BError ''Session not connected''), snd (ensureConnected sid probe s))"
proof -
  obtain st s1 where p: "ensureConnected sid probe s = (st, s1)"
    by (cases "ensureConnected sid probe s")
  with ensureConnected_trace [of sid probe s] assms(4)
  have t: "trace s1 = trace s @ [GetState (client sess)]" by simp
  with p assms show "\<exists>es. trace (snd (send_message sid number message probe sent s)) =
                 trace s @ GetState (client sess) # es"
    by (simp add: send_message_def lookup_def falsy_def Let_def split: outcome.splits)
  assume "probe \<noteq> Resolved ''CONNECTED''"
  with p assms(4) have "\<not> ok st"
    by (auto simp: ensureConnected_def Let_def split: outcome.splits)
  with p assms show "send_message sid number message probe sent s =
             (Resp 400 (BError ''Session not connected''), snd (ensureConnected sid probe s))"
    by (simp add: send_message_def lookup_def falsy_def)
qed

lemma session_status_probes_first:
  assumes "sessions s sid = Some sess"
  shows "trace (snd (session_status sid probe s)) = trace s @ [GetState (client sess)]"
    and "fst (session_status sid probe s) = Resp 200 (BStatus LOGGED_IN)
           \<longleftrightarrow> probe = Resolved ''CONNECTED''"
proof -
  obtain st s1 where p: "ensureConnected sid probe s = (st, s1)"
    by (cases "ensureConnected sid probe s")
  with ensureConnected_trace [of sid probe s] assms
  have t: "trace s1 = trace s @ [GetState (client sess)]" by simp
  with p assms show "trace (snd (session_status sid probe s)) = trace s @ [GetState (client sess)]"
    by (simp add: session_status_def lookup_def)
  from p assms have "ok st \<longleftrightarrow> probe = Resolved ''CONNECTED''"
    by (auto simp: ensureConnected_def Let_def split: outcome.splits)
  with p assms show "fst (session_status sid probe s) = Resp 200 (BStatus LOGGED_IN)
           \<longleftrightarrow> probe = Resolved ''CONNECTED''"
    by (simp add: session_status_def lookup_def)
qed

lemma send_media_probes_first:
  assumes "sid \<noteq> []" "number \<noteq> []" "sessions s sid = Some sess"
  shows "\<exists>es. trace (snd (send_media sid number caption (Some file) probe io s)) =
                 trace s @ GetState (client sess) # es"
    and "probe \<noteq> Resolved ''CONNECTED'' \<Longrightarrow>
           fst (send_media sid number caption (Some file) probe io s) =
             Resp 400 (BError ''Session not connected'')
         \<and> trace (snd (send_media sid number caption (Some file) probe io s)) =
             trace s @ [GetState (client sess), UnlinkSync (path file)]"
proof -
  obtain st s1 where p: "ensureConnected sid probe s = (st, s1)"
    by (cases "ensureConnected sid probe s")
  with ensureConnected_trace [of sid probe s] assms(3)
  have t: "trace s1 = trace s @ [GetState (client sess)]" by simp
  with p assms show "\<exists>es. trace (snd (send_media sid number caption (Some file) probe io s)) =
                 trace s @ GetState (client sess) # es"
    by (simp add: send_media_def lookup_def falsy_def Let_def split: outcome.splits)
  assume "probe \<noteq> Resolved ''CONNECTED''"
  with p assms(3) have "\<not> ok st"
    by (auto simp: ensureConnected_def Let_def split: outcome.splits)
  with p t assms show "fst (send_media sid number caption (Some file) probe io s) =
             Resp 400 (BError ''Session not connected'')
         \<and> trace (snd (send_media sid number caption (Some file) probe io s)) =
             trace s @ [GetState (client sess), UnlinkSync (path file)]"
    by (simp add: send_media_def lookup_def falsy_def)
qed

text \<open>
  Claim C3 at the media handler of the second copy. The entry of alice has its \<open>ready\<close>
  flag set while her client has lost its connection. The second copy never asks the client
  for its state: it goes by the flag, reads the upload and calls \<open>sendMessage\<close>, which
  fails. The media handler of the first copy, on the same state and with a probe that
  fails, asks first and answers "Session not connected" without sending.
\<close>

theorem send_media_v2_trusts_cached_flag:
  "fst (send_media_v2 ''alice'' ''15550100'' (Some report_pdf) send_fails alice_cached_ready) =
     Resp 500 (BError ''Failed to send media'')
   \<and> trace (snd (send_media_v2 ''alice'' ''15550100'' (Some report_pdf) send_fails alice_cached_ready)) =
       trace alice_cached_ready @
         [ReadFileSync ''/srv/backend/uploads/f1'',
          SendMessage 0 ''15550100@c.us'' (Media ''application/pdf'' ''JVBERi0='' ''report.pdf'' None)]
   \<and> fst (send_media ''alice'' ''15550100'' None (Some report_pdf) Rejected send_fails
             alice_cached_ready) = Resp 400 (BError ''Session not connected'')
   \<and> trace (snd (send_media ''alice'' ''15550100'' None (Some report_pdf) Rejected send_fails
                    alice_cached_ready)) =
       trace alice_cached_ready @ [GetState 0, UnlinkSync ''/srv/backend/uploads/f1'']"
  by (simp add: send_media_v2_def send_media_def ensureConnected_def alice_cached_ready_def
                report_pdf_def send_fails_def falsy_def Let_def slash_join_def lookup_def
                UPLOAD_DIR_def mimeType_def
                truthy_def)

end
